(* ===== verification/Prelude.thy ===== *)
theory Prelude
  imports Complex_Main
begin

text \<open>
  Shared vocabulary of the SOSNet development: the Python exceptions the modelled code
  can raise, the error monad that threads them (first error wins, as a raised
  exception does), the shape type of 4-dimensional tensors, and the list and sum
  lemmas that the tensor, layer and network theories share.
\<close>

named_theorems tensor_simps "equations that evaluate tensor constructions elementwise"
named_theorems shape_simps "equations that evaluate the shape contract of layers"

subsection \<open>Python exceptions and the error monad\<close>

text \<open>
  Every exception the modelled code raises is a value of \<open>error\<close>; the string is the
  part of the message that identifies the failing check.
\<close>

datatype error =
    AttributeError string
  | KeyError string
  | ValueError string
  | RuntimeError string
  | IndexError string

type_synonym shape4 = "nat \<times> nat \<times> nat \<times> nat"

definition ebind :: "error + 'a \<Rightarrow> ('a \<Rightarrow> error + 'b) \<Rightarrow> error + 'b" where
  "ebind r f = (case r of Inl e \<Rightarrow> Inl e | Inr a \<Rightarrow> f a)"

text \<open>Python's \<open>d[k]\<close> on a dictionary with string keys.\<close>

definition dict_get :: "(string \<rightharpoonup> 'v) \<Rightarrow> string \<Rightarrow> error + 'v" where
  "dict_get d k = (case d k of None \<Rightarrow> Inl (KeyError k) | Some v \<Rightarrow> Inr v)"

lemma ebind_Inl [simp]: "ebind (Inl e) f = Inl e"
  by (simp add: ebind_def)

lemma ebind_Inr [simp]: "ebind (Inr a) f = f a"
  by (simp add: ebind_def)

lemma ebind_eq_Inr_iff: "ebind r f = Inr b \<longleftrightarrow> (\<exists>a. r = Inr a \<and> f a = Inr b)"
  by (cases r) simp_all

lemma ebind_eq_Inl_iff:
  "ebind r f = Inl e \<longleftrightarrow> r = Inl e \<or> (\<exists>a. r = Inr a \<and> f a = Inl e)"
  by (cases r) simp_all

lemma dict_get_Some [simp]: "d k = Some v \<Longrightarrow> dict_get d k = Inr v"
  by (simp add: dict_get_def)

lemma dict_get_None [simp]: "d k = None \<Longrightarrow> dict_get d k = Inl (KeyError k)"
  by (simp add: dict_get_def)

subsection \<open>Sums over index ranges\<close>

text \<open>
  The tensor kernels sum with \<open>sum_list\<close> over \<open>[0..<n]\<close>, which evaluates; proofs
  move to the set sums of the library with this lemma.
\<close>

lemma sum_list_map_upt [simp]: "sum_list (map f [0..<n]) = (\<Sum>i<n. f i)"
  by (induction n) simp_all

lemma sum_list_map_upt_from: "sum_list (map f [m..<n]) = (\<Sum>i\<in>{m..<n}. f i)"
  by (simp add: interv_sum_list_conv_sum_set_nat)

lemma sum_sq_nonneg [intro]: "0 \<le> (\<Sum>i\<in>A. (f i :: real)\<^sup>2)"
  by (simp add: sum_nonneg)

lemma sum_sq_eq_0_iff:
  "finite A \<Longrightarrow> (\<Sum>i\<in>A. (f i :: real)\<^sup>2) = 0 \<longleftrightarrow> (\<forall>i\<in>A. f i = 0)"
  by (simp add: sum_nonneg_eq_0_iff)

subsection \<open>Lists built from index functions\<close>

lemma map_upt_cong:
  "(\<And>i. i < n \<Longrightarrow> f i = g i) \<Longrightarrow> map f [0..<n] = map g [0..<n]"
  by simp

lemma sum_list_map_const_on:
  "(\<And>x. x \<in> set xs \<Longrightarrow> f x = k) \<Longrightarrow> sum_list (map f xs) = length xs * (k :: nat)"
  by (induction xs) simp_all

lemma idx_less: "b < B \<Longrightarrow> c < (C::nat) \<Longrightarrow> b * C + c < B * C"
proof -
  assume "b < B" and "c < C"
  then have "b * C + c < Suc b * C" by simp
  also have "\<dots> \<le> B * C" using \<open>b < B\<close> by (intro mult_le_mono1) simp
  finally show ?thesis .
qed

lemma length_concat_uniform:
  "\<forall>x\<in>set xs. length x = n \<Longrightarrow> length (concat xs) = length xs * n"
  by (induction xs) simp_all

lemma concat_nth_uniform:
  "\<forall>x\<in>set xs. length x = n \<Longrightarrow> i < length xs \<Longrightarrow> j < n \<Longrightarrow>
   concat xs ! (i * n + j) = xs ! i ! j"
proof (induction xs arbitrary: i)
  case Nil
  then show ?case by simp
next
  case (Cons x xs)
  show ?case
  proof (cases i)
    case 0
    with Cons.prems show ?thesis by (simp add: nth_append)
  next
    case (Suc i')
    with Cons.prems have "concat xs ! (i' * n + j) = xs ! i' ! j"
      by (intro Cons.IH) simp_all
    with Suc Cons.prems show ?thesis
      by (simp add: nth_append add.assoc)
  qed
qed

lemma list_all_map_upt [simp]: "list_all P (map f [0..<n]) \<longleftrightarrow> (\<forall>i<n. P (f i))"
  by (auto simp: list_all_iff)

end
