(* ===== verification/Tensor.thy ===== *)
theory Tensor
  imports Prelude
begin

text \<open>
  Four-dimensional tensors as PyTorch stores them for this network: a shape
  \<open>(B, C, H, W)\<close> (batch, channel, height, width) and the values, nested row-major
  as \<open>tensor.tolist()\<close> would print them. Float arithmetic is modelled by \<open>real\<close>
  (no rounding). Every kernel of the layer theories builds its output with
  \<open>tensor_of\<close> from a formula for one output element, as the framework's kernels
  compute it; \<open>wf_tensor\<close> is the type invariant that the values have the shape.
\<close>

record tensor =
  dims :: shape4
  vals :: "real list list list list"

definition wf_tensor :: "tensor \<Rightarrow> bool" where
  "wf_tensor t = (case dims t of (B, C, H, W) \<Rightarrow>
     length (vals t) = B \<and>
     list_all (\<lambda>img. length img = C \<and>
       list_all (\<lambda>pl. length pl = H \<and> list_all (\<lambda>row. length row = W) pl) img) (vals t))"

definition tensor_of :: "shape4 \<Rightarrow> (nat \<Rightarrow> nat \<Rightarrow> nat \<Rightarrow> nat \<Rightarrow> real) \<Rightarrow> tensor" where
  "tensor_of s f = (case s of (B, C, H, W) \<Rightarrow>
     \<lparr>dims = s,
      vals = map (\<lambda>b. map (\<lambda>c. map (\<lambda>i. map (\<lambda>j. f b c i j) [0..<W]) [0..<H]) [0..<C]) [0..<B]\<rparr>)"

text \<open>\<open>t[b, c, i, j]\<close>.\<close>

definition tget :: "tensor \<Rightarrow> nat \<Rightarrow> nat \<Rightarrow> nat \<Rightarrow> nat \<Rightarrow> real" where
  "tget t b c i j = vals t ! b ! c ! i ! j"

fun in_range :: "shape4 \<Rightarrow> nat \<Rightarrow> nat \<Rightarrow> nat \<Rightarrow> nat \<Rightarrow> bool" where
  "in_range (B, C, H, W) b c i j \<longleftrightarrow> b < B \<and> c < C \<and> i < H \<and> j < W"

text \<open>An elementwise operation (\<open>torch.relu\<close>, \<open>t + 1e-10\<close>).\<close>

definition map_tensor :: "(real \<Rightarrow> real) \<Rightarrow> tensor \<Rightarrow> tensor" where
  "map_tensor f t = tensor_of (dims t) (\<lambda>b c i j. f (tget t b c i j))"

subsection \<open>The invariant and elementwise evaluation\<close>

lemma dims_tensor_of [simp]: "dims (tensor_of s f) = s"
  by (cases s) (simp add: tensor_of_def)

lemma wf_tensor_of [simp]: "wf_tensor (tensor_of s f)"
  by (cases s) (simp add: tensor_of_def wf_tensor_def)

lemma tget_tensor_of [tensor_simps]:
  "in_range s b c i j \<Longrightarrow> tget (tensor_of s f) b c i j = f b c i j"
  by (cases s) (simp add: tensor_of_def tget_def)

lemma tensor_of_cong:
  assumes "\<And>b c i j. in_range s b c i j \<Longrightarrow> f b c i j = g b c i j"
  shows "tensor_of s f = tensor_of s g"
  using assms by (cases s) (simp add: tensor_of_def)

lemma tensor_of_at:
  assumes "wf_tensor t"
  shows "tensor_of (dims t) (tget t) = t"
proof -
  obtain B C H W where d: "dims t = (B, C, H, W)"
    by (cases "dims t") auto
  with assms have len: "length (vals t) = B"
    and img: "\<forall>img\<in>set (vals t). length img = C \<and>
       (\<forall>pl\<in>set img. length pl = H \<and> (\<forall>row\<in>set pl. length row = W))"
    by (simp_all add: wf_tensor_def list_all_iff)
  have "map (\<lambda>b. map (\<lambda>c. map (\<lambda>i. map (\<lambda>j. vals t ! b ! c ! i ! j)
           [0..<W]) [0..<H]) [0..<C]) [0..<B] = vals t"
    using len img by (auto simp: all_set_conv_all_nth intro!: nth_equalityI)
  then show ?thesis
    using d by (simp add: tensor_of_def tget_def)
qed

lemma tensor_eqI:
  assumes "wf_tensor t" and "wf_tensor u" and "dims t = dims u"
    and "\<And>b c i j. in_range (dims t) b c i j \<Longrightarrow> tget t b c i j = tget u b c i j"
  shows "t = u"
proof -
  have "t = tensor_of (dims t) (tget t)"
    using assms(1) by (simp add: tensor_of_at)
  also have "\<dots> = tensor_of (dims u) (tget u)"
    using assms(3,4) by (auto intro: tensor_of_cong)
  also have "\<dots> = u"
    using assms(2) by (simp add: tensor_of_at)
  finally show ?thesis .
qed

lemma dims_map_tensor [simp]: "dims (map_tensor f t) = dims t"
  by (simp add: map_tensor_def)

lemma wf_map_tensor [simp]: "wf_tensor (map_tensor f t)"
  by (simp add: map_tensor_def)

lemma tget_map_tensor [tensor_simps]:
  "in_range (dims t) b c i j \<Longrightarrow> tget (map_tensor f t) b c i j = f (tget t b c i j)"
  by (simp add: map_tensor_def tget_tensor_of)

end
