(* ===== verification/Layers.thy ===== *)
theory Layers
  imports Tensor
begin

text \<open>
  The \<open>torch.nn\<close> modules that \<^verbatim>\<open>src/kornia/feature/sosnet.py\<close> instantiates, as
  the framework implements them for the configurations the file uses (\<open>affine=False\<close>
  normalisations, \<open>bias=False\<close> convolutions, default \<open>eps\<close> and \<open>momentum\<close>). A
  module is a value of \<open>layer\<close> holding its hyperparameters and its parameters and
  buffers; its constructor is an \<open>*_init\<close> function and its \<open>forward\<close> is a case of
  \<open>layer_forward\<close>, which returns the module after the call (batch normalisation
  updates its running statistics in training mode, also on the way to an error) and
  the output or the exception, with the framework's checks in the framework's order.
  \<open>layer_shape\<close> is the abstract contract: which input shapes a module accepts and
  the output shape, errors included.
\<close>

type_synonym keep_mask = "nat \<Rightarrow> nat \<Rightarrow> nat \<Rightarrow> nat \<Rightarrow> bool"

subsection \<open>Modules, their parameters and their constructors\<close>

datatype layer =
    InstanceNorm2d nat
      \<comment> \<open>\<open>nn.InstanceNorm2d(num_features, affine=False)\<close>: no parameters, no buffers\<close>
  | Conv2d nat nat nat nat nat tensor
      \<comment> \<open>\<open>nn.Conv2d(in, out, kernel_size, stride, padding, bias=False)\<close> and its \<open>weight\<close>\<close>
  | BatchNorm2d nat "real list" "real list" int
      \<comment> \<open>\<open>nn.BatchNorm2d(num_features, affine=False)\<close>: \<open>running_mean\<close>,
          \<open>running_var\<close>, \<open>num_batches_tracked\<close>\<close>
  | ReLU
  | Dropout real
  | LocalResponseNorm nat real real real
      \<comment> \<open>\<open>nn.LocalResponseNorm(size, alpha, beta, k)\<close>\<close>

text \<open>
  The framework's defaults for the normalisation layers, which the code does not override.
\<close>

definition norm_eps :: real where
  "norm_eps = 1 / 100000"

definition bn_momentum :: real where
  "bn_momentum = 1 / 10"

text \<open>
  \<open>nn.Conv2d\<close> draws its weight at random (Kaiming-uniform); the draw is the argument
  \<open>w\<close>, the value of \<open>weight[o, c, u, v]\<close>. The weight has shape
  \<open>(out_channels, in_channels, k, k)\<close>.
\<close>

definition conv2d_init ::
  "(nat \<Rightarrow> nat \<Rightarrow> nat \<Rightarrow> nat \<Rightarrow> real) \<Rightarrow> nat \<Rightarrow> nat \<Rightarrow> nat \<Rightarrow> nat \<Rightarrow> nat \<Rightarrow> layer" where
  "conv2d_init w cin cout k s p = Conv2d cin cout k s p (tensor_of (cout, cin, k, k) w)"

definition batchnorm2d_init :: "nat \<Rightarrow> layer" where
  "batchnorm2d_init n = BatchNorm2d n (replicate n 0) (replicate n 1) 0"

definition dropout_init :: "real \<Rightarrow> error + layer" where
  "dropout_init p =
     (if p < 0 \<or> 1 < p
      then Inl (ValueError ''dropout probability has to be between 0 and 1'')
      else Inr (Dropout p))"

subsection \<open>Kernels\<close>

text \<open>Statistics of a slice of values: mean and biased (population) variance.\<close>

definition list_mean :: "real list \<Rightarrow> real" where
  "list_mean xs = sum_list xs / real (length xs)"

definition list_var :: "real list \<Rightarrow> real" where
  "list_var xs = sum_list (map (\<lambda>v. (v - list_mean xs)\<^sup>2) xs) / real (length xs)"

text \<open>The values of channel \<open>c\<close> over batch and space, and of one plane \<open>(b, c)\<close>.\<close>

definition channel_vals :: "tensor \<Rightarrow> nat \<Rightarrow> real list" where
  "channel_vals x c = (case dims x of (B, C, H, W) \<Rightarrow>
     concat (map (\<lambda>b. concat (map (\<lambda>i. map (\<lambda>j. tget x b c i j) [0..<W]) [0..<H])) [0..<B]))"

definition plane_vals :: "tensor \<Rightarrow> nat \<Rightarrow> nat \<Rightarrow> real list" where
  "plane_vals x b c = (case dims x of (B, C, H, W) \<Rightarrow>
     concat (map (\<lambda>i. map (\<lambda>j. tget x b c i j) [0..<W]) [0..<H]))"

text \<open>\<open>F.instance_norm\<close> with input statistics, no affine transform.\<close>

definition instance_norm_kernel :: "tensor \<Rightarrow> tensor" where
  "instance_norm_kernel x = tensor_of (dims x) (\<lambda>b c i j.
     (tget x b c i j - list_mean (plane_vals x b c)) / sqrt (list_var (plane_vals x b c) + norm_eps))"

text \<open>\<open>F.batch_norm\<close> in training mode: batch statistics per channel.\<close>

definition bn_train_kernel :: "tensor \<Rightarrow> tensor" where
  "bn_train_kernel x = tensor_of (dims x) (\<lambda>b c i j.
     (tget x b c i j - list_mean (channel_vals x c)) / sqrt (list_var (channel_vals x c) + norm_eps))"

text \<open>\<open>F.batch_norm\<close> in evaluation mode: the running statistics.\<close>

definition bn_eval_kernel :: "real list \<Rightarrow> real list \<Rightarrow> tensor \<Rightarrow> tensor" where
  "bn_eval_kernel rm rv x = tensor_of (dims x) (\<lambda>b c i j.
     (tget x b c i j - rm ! c) / sqrt (rv ! c + norm_eps))"

text \<open>
  The running-statistics update of a training step: an exponential average with the
  batch mean and the unbiased batch variance (\<open>n / (n - 1)\<close> times the biased one).
\<close>

definition bn_running_mean :: "real list \<Rightarrow> tensor \<Rightarrow> real list" where
  "bn_running_mean rm x = map (\<lambda>c.
     (1 - bn_momentum) * rm ! c + bn_momentum * list_mean (channel_vals x c)) [0..<length rm]"

definition bn_running_var :: "real list \<Rightarrow> tensor \<Rightarrow> real list" where
  "bn_running_var rv x = map (\<lambda>c.
     (let n = real (length (channel_vals x c)) in
      (1 - bn_momentum) * rv ! c + bn_momentum * (list_var (channel_vals x c) * n / (n - 1))))
     [0..<length rv]"

text \<open>
  \<open>F.conv2d\<close> (cross-correlation, \<open>groups=1\<close>, \<open>dilation=1\<close>, no bias): zero padding
  of \<open>p\<close> on every side, output size \<open>(n + 2p - k) div s + 1\<close>.
\<close>

definition conv_out_size :: "nat \<Rightarrow> nat \<Rightarrow> nat \<Rightarrow> nat \<Rightarrow> nat" where
  "conv_out_size n k s p = (n + 2 * p - k) div s + 1"

definition padded :: "tensor \<Rightarrow> nat \<Rightarrow> nat \<Rightarrow> nat \<Rightarrow> nat \<Rightarrow> nat \<Rightarrow> real" where
  "padded x p b c r q = (case dims x of (B, C, H, W) \<Rightarrow>
     if p \<le> r \<and> r < H + p \<and> p \<le> q \<and> q < W + p then tget x b c (r - p) (q - p) else 0)"

definition conv2d_kernel :: "nat \<Rightarrow> nat \<Rightarrow> tensor \<Rightarrow> tensor \<Rightarrow> tensor" where
  "conv2d_kernel s p w x = (case (dims x, dims w) of ((B, C, H, W), (CO, CI, KH, KW)) \<Rightarrow>
     tensor_of (B, CO, conv_out_size H KH s p, conv_out_size W KW s p) (\<lambda>b oc i j.
       sum_list (map (\<lambda>c. sum_list (map (\<lambda>u. sum_list (map (\<lambda>v.
         tget w oc c u v * padded x p b c (i * s + u) (j * s + v)) [0..<KW])) [0..<KH])) [0..<C])))"

text \<open>\<open>F.dropout\<close> in training mode; \<open>keep\<close> is the Bernoulli mask drawn for the call.\<close>

definition dropout_kernel :: "real \<Rightarrow> keep_mask \<Rightarrow> tensor \<Rightarrow> tensor" where
  "dropout_kernel p keep x = tensor_of (dims x) (\<lambda>b c i j.
     if keep b c i j then tget x b c i j / (1 - p) else 0)"

text \<open>
  \<open>F.local_response_norm\<close>: the squares are zero-padded by \<open>sz div 2\<close> channels in
  front and \<open>(sz - 1) div 2\<close> behind and averaged over a window of \<open>sz\<close> channels
  (the padding counts), then \<open>div = (avg * alpha + k) ^ beta\<close> and the output is
  \<open>input / div\<close>. The window of channel \<open>c\<close> is the channels of the input it covers.
\<close>

definition lrn_window :: "nat \<Rightarrow> nat \<Rightarrow> nat \<Rightarrow> nat list" where
  "lrn_window sz C c = [c - sz div 2..<min C (c + (sz - 1) div 2 + 1)]"

definition lrn_div :: "nat \<Rightarrow> real \<Rightarrow> real \<Rightarrow> real \<Rightarrow> tensor \<Rightarrow> nat \<Rightarrow> nat \<Rightarrow> nat \<Rightarrow> nat \<Rightarrow> real" where
  "lrn_div sz alpha beta k x b c i j = (case dims x of (B, C, H, W) \<Rightarrow>
     (sum_list (map (\<lambda>c'. (tget x b c' i j)\<^sup>2) (lrn_window sz C c)) / real sz * alpha + k)
       powr beta)"

definition lrn_kernel :: "nat \<Rightarrow> real \<Rightarrow> real \<Rightarrow> real \<Rightarrow> tensor \<Rightarrow> tensor" where
  "lrn_kernel sz alpha beta k x = tensor_of (dims x) (\<lambda>b c i j.
     tget x b c i j / lrn_div sz alpha beta k x b c i j)"

subsection \<open>The forward call of a module\<close>

abbreviation err_spatial :: error where
  "err_spatial \<equiv> ValueError ''Expected more than 1 spatial element when training''"

abbreviation err_batch :: error where
  "err_batch \<equiv> ValueError ''Expected more than 1 value per channel when training''"

abbreviation err_stride :: error where
  "err_stride \<equiv> RuntimeError ''non-positive stride is not supported''"

abbreviation err_channels :: error where
  "err_channels \<equiv> RuntimeError ''expected input to have weight.size(1) channels''"

abbreviation err_kernel :: error where
  "err_kernel \<equiv> RuntimeError ''Kernel size can not be greater than actual input size''"

abbreviation err_running :: error where
  "err_running \<equiv> RuntimeError ''running_mean should contain as many elements as input channels''"

abbreviation err_dropout :: error where
  "err_dropout \<equiv> ValueError ''dropout probability has to be between 0 and 1''"

text \<open>
  \<open>tr\<close> is the module's \<open>training\<close> flag, \<open>keep\<close> the dropout mask of the call.
  Batch normalisation increments \<open>num_batches_tracked\<close> in training mode before
  \<open>F.batch_norm\<close> checks its input, so the increment survives the errors; an input
  with no element is returned as it is, before the running-statistics check.
\<close>

fun layer_forward :: "bool \<Rightarrow> keep_mask \<Rightarrow> layer \<Rightarrow> tensor \<Rightarrow> layer \<times> (error + tensor)" where
  "layer_forward tr keep (InstanceNorm2d n) x =
     (InstanceNorm2d n,
      (case dims x of (B, C, H, W) \<Rightarrow>
         if H * W = 1 then Inl err_spatial else Inr (instance_norm_kernel x)))"
| "layer_forward tr keep (Conv2d cin cout k s p w) x =
     (Conv2d cin cout k s p w,
      (case (dims x, dims w) of ((B, C, H, W), (CO, CI, KH, KW)) \<Rightarrow>
         if s = 0 then Inl err_stride
         else if C \<noteq> CI then Inl err_channels
         else if H + 2 * p < KH \<or> W + 2 * p < KW then Inl err_kernel
         else Inr (conv2d_kernel s p w x)))"
| "layer_forward tr keep (BatchNorm2d n rm rv cnt) x =
     (let cnt' = (if tr then cnt + 1 else cnt) in
      case dims x of (B, C, H, W) \<Rightarrow>
        if tr \<and> B * H * W = 1 then (BatchNorm2d n rm rv cnt', Inl err_batch)
        else if B * C * H * W = 0 then (BatchNorm2d n rm rv cnt', Inr x)
        else if length rm \<noteq> C \<or> length rv \<noteq> C then (BatchNorm2d n rm rv cnt', Inl err_running)
        else if tr
        then (BatchNorm2d n (bn_running_mean rm x) (bn_running_var rv x) cnt', Inr (bn_train_kernel x))
        else (BatchNorm2d n rm rv cnt', Inr (bn_eval_kernel rm rv x)))"
| "layer_forward tr keep ReLU x = (ReLU, Inr (map_tensor (\<lambda>v. max 0 v) x))"
| "layer_forward tr keep (Dropout p) x =
     (Dropout p,
      if p < 0 \<or> 1 < p then Inl err_dropout
      else Inr (if tr then dropout_kernel p keep x else x))"
| "layer_forward tr keep (LocalResponseNorm sz alpha beta k) x =
     (LocalResponseNorm sz alpha beta k, Inr (lrn_kernel sz alpha beta k x))"

subsection \<open>The shape contract\<close>

text \<open>
  What a module promises about shapes: the error it raises on an input shape, or the
  shape of its output. It reads only the hyperparameters and the sizes of the
  parameters and buffers.
\<close>

fun layer_shape :: "bool \<Rightarrow> layer \<Rightarrow> shape4 \<Rightarrow> error + shape4" where
  "layer_shape tr (InstanceNorm2d n) (B, C, H, W) =
     (if H * W = 1 then Inl err_spatial else Inr (B, C, H, W))"
| "layer_shape tr (Conv2d cin cout k s p w) (B, C, H, W) =
     (case dims w of (CO, CI, KH, KW) \<Rightarrow>
        if s = 0 then Inl err_stride
        else if C \<noteq> CI then Inl err_channels
        else if H + 2 * p < KH \<or> W + 2 * p < KW then Inl err_kernel
        else Inr (B, CO, conv_out_size H KH s p, conv_out_size W KW s p))"
| "layer_shape tr (BatchNorm2d n rm rv cnt) (B, C, H, W) =
     (if tr \<and> B * H * W = 1 then Inl err_batch
      else if B * C * H * W = 0 then Inr (B, C, H, W)
      else if length rm \<noteq> C \<or> length rv \<noteq> C then Inl err_running
      else Inr (B, C, H, W))"
| "layer_shape tr ReLU s = Inr s"
| "layer_shape tr (Dropout p) s = (if p < 0 \<or> 1 < p then Inl err_dropout else Inr s)"
| "layer_shape tr (LocalResponseNorm sz alpha beta k) s = Inr s"

lemmas kernel_defs = instance_norm_kernel_def bn_train_kernel_def bn_eval_kernel_def
  conv2d_kernel_def dropout_kernel_def lrn_kernel_def

subsection \<open>Each module implements its shape contract\<close>

text \<open>
  The refinement of the contract by the forward call: the error is the contract's
  error, the output has the contract's shape and satisfies the invariant. The module
  after a call in evaluation mode is the module before it, and no call changes the
  contract of the module.
\<close>

lemma dims_kernels [simp, shape_simps]:
  "dims (instance_norm_kernel x) = dims x"
  "dims (bn_train_kernel x) = dims x"
  "dims (bn_eval_kernel rm rv x) = dims x"
  "dims (dropout_kernel q keep x) = dims x"
  "dims (lrn_kernel sz alpha beta k x) = dims x"
  "dims (conv2d_kernel s p w x) = (case (dims x, dims w) of ((B, C, H, W), (CO, CI, KH, KW)) \<Rightarrow>
     (B, CO, conv_out_size H KH s p, conv_out_size W KW s p))"
  by (simp_all add: kernel_defs split: prod.splits)

lemma wf_kernels [simp]:
  "wf_tensor (instance_norm_kernel x)"
  "wf_tensor (bn_train_kernel x)"
  "wf_tensor (bn_eval_kernel rm rv x)"
  "wf_tensor (dropout_kernel q keep x)"
  "wf_tensor (lrn_kernel sz alpha beta k x)"
  "wf_tensor (conv2d_kernel s p w x)"
  by (simp_all add: kernel_defs split: prod.splits)

lemma layer_forward_refines_shape:
  assumes "wf_tensor x"
  shows "map_sum id dims (snd (layer_forward tr keep l x)) = layer_shape tr l (dims x)"
proof -
  obtain B C H W where d: "dims x = (B, C, H, W)" by (cases "dims x") auto
  show ?thesis
    by (cases l) (auto simp: d Let_def split: prod.splits)
qed

lemma layer_forward_wf:
  "wf_tensor x \<Longrightarrow> snd (layer_forward tr keep l x) = Inr y \<Longrightarrow> wf_tensor y"
  by (cases l) (auto simp: Let_def split: prod.splits if_splits)

lemma layer_forward_eval_state: "fst (layer_forward False keep l x) = l"
  by (cases l) (auto simp: Let_def split: prod.splits)

lemma length_bn_running [simp]:
  "length (bn_running_mean rm x) = length rm"
  "length (bn_running_var rv x) = length rv"
  by (simp_all add: bn_running_mean_def bn_running_var_def)

lemma layer_shape_forward: "layer_shape tr' (fst (layer_forward tr keep l x)) = layer_shape tr' l"
proof (cases l)
  case (BatchNorm2d n rm rv cnt)
  then show ?thesis
    by (auto simp: Let_def fun_eq_iff split: prod.splits)
qed (auto split: prod.splits)

end
