(* ===== verification/Sequential.thy ===== *)
theory Sequential
  imports Layers
begin

text \<open>
  \<open>nn.Sequential\<close>: its constructor takes the modules in argument order (Python
  evaluates the arguments left to right and the first exception aborts the call), and
  its \<open>forward\<close> feeds the input through the modules in order. A module that raises
  stops the pass; the modules before it have already run, so their state changes (the
  batch-normalisation counters and running statistics) stay. \<open>seq_shape\<close> is the
  contract of the whole sequence, and \<open>seq_forward\<close> refines it.
\<close>

fun collect_args :: "(error + 'a) list \<Rightarrow> error + 'a list" where
  "collect_args [] = Inr []"
| "collect_args (r # rs) = ebind r (\<lambda>a. ebind (collect_args rs) (\<lambda>as. Inr (a # as)))"

fun seq_forward :: "bool \<Rightarrow> keep_mask \<Rightarrow> layer list \<Rightarrow> tensor \<Rightarrow> layer list \<times> (error + tensor)" where
  "seq_forward tr keep [] x = ([], Inr x)"
| "seq_forward tr keep (l # ls) x =
     (case layer_forward tr keep l x of
        (l', Inl e) \<Rightarrow> (l' # ls, Inl e)
      | (l', Inr y) \<Rightarrow> (case seq_forward tr keep ls y of (ls', r) \<Rightarrow> (l' # ls', r)))"

fun seq_shape :: "bool \<Rightarrow> layer list \<Rightarrow> shape4 \<Rightarrow> error + shape4" where
  "seq_shape tr [] s = Inr s"
| "seq_shape tr (l # ls) s = ebind (layer_shape tr l s) (seq_shape tr ls)"

subsection \<open>Argument evaluation\<close>

lemma collect_args_Inr_iff:
  "collect_args rs = Inr as \<longleftrightarrow> rs = map Inr as"
proof (induction rs arbitrary: as)
  case Nil
  then show ?case by auto
next
  case (Cons r rs)
  then show ?case
    by (cases r) (auto simp: ebind_eq_Inr_iff)
qed

lemma collect_args_first_error:
  "collect_args (map Inr as @ Inl e # rs) = Inl e"
  by (induction as) simp_all

subsection \<open>Unfolding a pass\<close>

text \<open>
  The output and the modules after a pass, separately: the output is the error monad's
  composition of the modules' outputs; the modules after the first failing one are
  untouched.
\<close>

lemma snd_seq_forward_Cons [simp]:
  "snd (seq_forward tr keep (l # ls) x) =
     ebind (snd (layer_forward tr keep l x)) (\<lambda>y. snd (seq_forward tr keep ls y))"
  by (auto split: prod.splits sum.splits)

lemma fst_seq_forward_Cons [simp]:
  "fst (seq_forward tr keep (l # ls) x) =
     fst (layer_forward tr keep l x) #
       (case snd (layer_forward tr keep l x) of
          Inl e \<Rightarrow> ls
        | Inr y \<Rightarrow> fst (seq_forward tr keep ls y))"
  by (auto split: prod.splits sum.splits)

declare seq_forward.simps(2) [simp del]

subsection \<open>The sequence implements its contract\<close>

lemma seq_forward_refines_shape:
  "wf_tensor x \<Longrightarrow>
   map_sum id dims (snd (seq_forward tr keep ls x)) = seq_shape tr ls (dims x)"
proof (induction ls arbitrary: x)
  case Nil
  then show ?case by simp
next
  case (Cons l ls)
  have contract: "map_sum id dims (snd (layer_forward tr keep l x)) = layer_shape tr l (dims x)"
    using Cons.prems by (rule layer_forward_refines_shape)
  show ?case
  proof (cases "snd (layer_forward tr keep l x)")
    case (Inl e)
    with contract [symmetric] have "layer_shape tr l (dims x) = Inl e"
      by simp
    with Inl show ?thesis by simp
  next
    case (Inr y)
    with Cons.prems have "wf_tensor y"
      by (rule layer_forward_wf)
    with Inr contract [symmetric] Cons.IH show ?thesis
      by simp
  qed
qed

lemma seq_forward_wf:
  "wf_tensor x \<Longrightarrow> snd (seq_forward tr keep ls x) = Inr y \<Longrightarrow> wf_tensor y"
proof (induction ls arbitrary: x)
  case Nil
  then show ?case by simp
next
  case (Cons l ls)
  then obtain z where z: "snd (layer_forward tr keep l x) = Inr z"
    and rest: "snd (seq_forward tr keep ls z) = Inr y"
    by (auto simp: ebind_eq_Inr_iff)
  from Cons.prems(1) z have "wf_tensor z"
    by (rule layer_forward_wf)
  then show ?case using rest by (rule Cons.IH)
qed

lemma seq_forward_eval_state: "fst (seq_forward False keep ls x) = ls"
  by (induction ls arbitrary: x) (simp_all add: layer_forward_eval_state split: sum.split)

lemma length_seq_forward [simp]: "length (fst (seq_forward tr keep ls x)) = length ls"
  by (induction ls arbitrary: x) (simp_all split: sum.split)

lemma seq_shape_cong:
  "map (layer_shape tr) ls = map (layer_shape tr) ls' \<Longrightarrow> seq_shape tr ls = seq_shape tr ls'"
proof (induction ls arbitrary: ls')
  case Nil
  then show ?case by simp
next
  case (Cons l ls)
  then obtain l' ls'' where "ls' = l' # ls''" and "layer_shape tr l = layer_shape tr l'"
    and "map (layer_shape tr) ls = map (layer_shape tr) ls''"
    by (cases ls') auto
  moreover from this(3) have "seq_shape tr ls = seq_shape tr ls''"
    by (rule Cons.IH)
  ultimately show ?case
    by (intro ext) simp
qed

lemma seq_shape_single: "seq_shape tr [l] s = layer_shape tr l s"
  by (cases "layer_shape tr l s") simp_all

lemma seq_shape_append:
  "seq_shape tr (xs @ ys) = (\<lambda>s. ebind (seq_shape tr xs s) (seq_shape tr ys))"
proof (rule ext)
  show "seq_shape tr (xs @ ys) s = ebind (seq_shape tr xs s) (seq_shape tr ys)" for s
    by (induction xs arbitrary: s) (auto simp: ebind_def split: sum.splits)
qed

lemma map_layer_shape_seq_forward:
  "map (layer_shape tr') (fst (seq_forward tr keep ls x)) = map (layer_shape tr') ls"
  by (induction ls arbitrary: x) (simp_all add: layer_shape_forward split: sum.split)

end
