(* ===== verification/SOSNet.thy ===== *)
theory SOSNet
  imports Sequential
begin

text \<open>
  The class \<open>SOSNet\<close> of \<^verbatim>\<open>src/kornia/feature/sosnet.py\<close>: its instance state, the
  module construction of \<open>__init__\<close> (lines 28--57) and \<open>forward\<close> (lines 67--70).
  The class body (lines 12--27) defines no attribute besides its methods, so the
  attribute lookup \<open>self.dim_desc\<close> of lines 52 and 56 goes through the instance, the
  class and \<open>nn.Module.__getattr__\<close>, which raises \<open>AttributeError\<close>: the class
  attributes are an argument \<open>attrs\<close> of the construction, \<open>sosnet_class_attrs\<close> is
  the source's (empty) one, and the theorems about the intended network take an
  \<open>attrs\<close> that defines \<open>dim_desc\<close>.
\<close>

subsection \<open>Instance state\<close>

text \<open>
  \<open>training\<close> is \<open>nn.Module.training\<close> (\<open>True\<close> after construction; \<open>train()\<close>
  and \<open>eval()\<close> set it on every submodule, so one flag serves all of them);
  \<open>layers\<close> and \<open>desc_norm\<close> are the two \<open>nn.Sequential\<close> children.
\<close>

record sosnet =
  training :: bool
  layers :: "layer list"
  desc_norm :: "layer list"

definition sosnet_class_attrs :: "string \<rightharpoonup> nat" where
  "sosnet_class_attrs = Map.empty"

definition get_attr :: "(string \<rightharpoonup> nat) \<Rightarrow> string \<Rightarrow> error + nat" where
  "get_attr attrs a =
     (case attrs a of
        None \<Rightarrow> Inl (AttributeError (''SOSNet object has no attribute '' @ a))
      | Some v \<Rightarrow> Inr v)"

text \<open>
  The random initial weights: \<open>w i\<close> is the weight draw of the convolution passed as
  argument \<open>i\<close> of \<open>nn.Sequential\<close> (the framework's generator gives each
  convolution its own draw).
\<close>

type_synonym weight_draw = "nat \<Rightarrow> nat \<Rightarrow> nat \<Rightarrow> nat \<Rightarrow> nat \<Rightarrow> real"

subsection \<open>Construction (\<open>__init__\<close>, lines 29--57)\<close>

text \<open>The arguments of \<open>nn.Sequential\<close> on lines 31--54, each evaluated to a module or an exception.\<close>

definition sosnet_layer_args :: "(string \<rightharpoonup> nat) \<Rightarrow> weight_draw \<Rightarrow> (error + layer) list" where
  "sosnet_layer_args attrs w = [
     Inr (InstanceNorm2d 1),
     Inr (conv2d_init (w 1) 1 32 3 1 1),
     Inr (batchnorm2d_init 32),
     Inr ReLU,
     Inr (conv2d_init (w 4) 32 32 3 1 1),
     Inr (batchnorm2d_init 32),
     Inr ReLU,
     Inr (conv2d_init (w 7) 32 64 3 2 1),
     Inr (batchnorm2d_init 64),
     Inr ReLU,
     Inr (conv2d_init (w 10) 64 64 3 1 1),
     Inr (batchnorm2d_init 64),
     Inr ReLU,
     Inr (conv2d_init (w 13) 64 128 3 2 1),
     Inr (batchnorm2d_init 128),
     Inr ReLU,
     Inr (conv2d_init (w 16) 128 128 3 1 1),
     Inr (batchnorm2d_init 128),
     Inr ReLU,
     dropout_init (1 / 10),
     ebind (get_attr attrs ''dim_desc'') (\<lambda>d. Inr (conv2d_init (w 20) 128 d 8 1 0)),
     Inr (batchnorm2d_init 128)]"

text \<open>The argument of \<open>nn.Sequential\<close> on lines 55--57: \<open>size\<close> and \<open>alpha\<close> each read \<open>self.dim_desc\<close>.\<close>

definition desc_norm_args :: "(string \<rightharpoonup> nat) \<Rightarrow> (error + layer) list" where
  "desc_norm_args attrs = [
     ebind (get_attr attrs ''dim_desc'') (\<lambda>d.
       ebind (get_attr attrs ''dim_desc'') (\<lambda>d'.
         Inr (LocalResponseNorm (2 * d) (real (2 * d')) (1 / 2) 0)))]"

text \<open>
  \<open>super().__init__()\<close> (training mode), then \<open>self.layers = ...\<close> and
  \<open>self.desc_norm = ...\<close>: lines 29--57.
\<close>

definition sosnet_modules :: "(string \<rightharpoonup> nat) \<Rightarrow> weight_draw \<Rightarrow> error + sosnet" where
  "sosnet_modules attrs w =
     ebind (collect_args (sosnet_layer_args attrs w)) (\<lambda>ls.
       ebind (collect_args (desc_norm_args attrs)) (\<lambda>dn.
         Inr \<lparr>training = True, layers = ls, desc_norm = dn\<rparr>))"

text \<open>\<open>nn.Module.train(mode)\<close>; \<open>eval()\<close> is \<open>train(False)\<close>.\<close>

definition sosnet_train :: "bool \<Rightarrow> sosnet \<Rightarrow> sosnet" where
  "sosnet_train mode m = m\<lparr>training := mode\<rparr>"

subsection \<open>Forward (lines 67--70)\<close>

text \<open>The constant of line 68.\<close>

definition desc_eps :: real where
  "desc_eps = 1 / 10 ^ 10"

text \<open>
  \<open>descr.view(descr.size(0), -1)\<close>, line 69: each batch element flattened in
  row-major order. With \<open>B = 0\<close> the tensor has no element and the size of the
  \<open>-1\<close> dimension is ambiguous, which the framework rejects.
\<close>

abbreviation err_view :: error where
  "err_view \<equiv> RuntimeError ''cannot reshape tensor of 0 elements into shape [0, -1]''"

definition view_rows :: "tensor \<Rightarrow> error + real list list" where
  "view_rows t = (case dims t of (B, C, H, W) \<Rightarrow>
     if B = 0 then Inl err_view
     else Inr (map (\<lambda>img. concat (map concat img)) (vals t)))"

text \<open>
  \<open>self.desc_norm(self.layers(input) + 1e-10)\<close>, then the view. The state after the
  call keeps what the submodules changed, also when one of them raised.
\<close>

definition sosnet_forward :: "keep_mask \<Rightarrow> sosnet \<Rightarrow> tensor \<Rightarrow> sosnet \<times> (error + real list list)" where
  "sosnet_forward keep m x =
     (case seq_forward (training m) keep (layers m) x of
        (ls', Inl e) \<Rightarrow> (m\<lparr>layers := ls'\<rparr>, Inl e)
      | (ls', Inr y) \<Rightarrow>
          (case seq_forward (training m) keep (desc_norm m) (map_tensor (\<lambda>v. v + desc_eps) y) of
             (dn', Inl e) \<Rightarrow> (m\<lparr>layers := ls', desc_norm := dn'\<rparr>, Inl e)
           | (dn', Inr d) \<Rightarrow> (m\<lparr>layers := ls', desc_norm := dn'\<rparr>, view_rows d)))"

subsection \<open>The contract of the network\<close>

text \<open>
  What \<open>SOSNet.forward\<close> promises about shapes: the composition of the two sequences'
  contracts (the addition of \<open>1e-10\<close> keeps the shape) and of the view, which maps
  \<open>(B, C, H, W)\<close> to \<open>B\<close> rows of \<open>C * H * W\<close> values.
\<close>

definition view_shape :: "shape4 \<Rightarrow> error + nat \<times> nat" where
  "view_shape s = (case s of (B, C, H, W) \<Rightarrow> if B = 0 then Inl err_view else Inr (B, C * H * W))"

definition sosnet_shape :: "bool \<Rightarrow> sosnet \<Rightarrow> shape4 \<Rightarrow> error + nat \<times> nat" where
  "sosnet_shape tr m s =
     ebind (seq_shape tr (layers m) s) (\<lambda>s'. ebind (seq_shape tr (desc_norm m) s') view_shape)"

text \<open>The repeated block of the layer stack: a 3x3 convolution, its batch normalisation, a ReLU.\<close>

definition conv_block :: "(nat \<Rightarrow> nat \<Rightarrow> nat \<Rightarrow> nat \<Rightarrow> real) \<Rightarrow> nat \<Rightarrow> nat \<Rightarrow> nat \<Rightarrow> layer list" where
  "conv_block w ci co s = [conv2d_init w ci co 3 s 1, batchnorm2d_init co, ReLU]"

subsection \<open>The modules built when \<open>dim_desc\<close> is defined\<close>

text \<open>
  With a class attribute \<open>dim_desc = d\<close> every argument evaluates. The layer stack
  is the instance normalisation, six blocks of a 3x3 convolution (padding 1), a batch
  normalisation and a ReLU, the dropout, and the 8x8 convolution with its batch
  normalisation; \<open>conv_block\<close> names the repeated block.
\<close>

lemma sosnet_modules_Inr:
  assumes "attrs ''dim_desc'' = Some d"
  shows "sosnet_modules attrs w =
     Inr \<lparr>training = True, layers = map projr (sosnet_layer_args attrs w),
          desc_norm = [LocalResponseNorm (2 * d) (real (2 * d)) (1 / 2) 0]\<rparr>"
  using assms
  by (simp add: sosnet_modules_def sosnet_layer_args_def desc_norm_args_def get_attr_def dropout_init_def)

lemma sosnet_layers_blocks:
  assumes "attrs ''dim_desc'' = Some d"
  shows "map projr (sosnet_layer_args attrs w) =
    [InstanceNorm2d 1] @ conv_block (w 1) 1 32 1 @ conv_block (w 4) 32 32 1 @
    conv_block (w 7) 32 64 2 @ conv_block (w 10) 64 64 1 @ conv_block (w 13) 64 128 2 @
    conv_block (w 16) 128 128 1 @ [Dropout (1 / 10)] @
    [conv2d_init (w 20) 128 d 8 1 0, batchnorm2d_init 128]"
  using assms
  by (simp add: sosnet_layer_args_def conv_block_def get_attr_def dropout_init_def)

lemma seq_shape_conv_block:
  assumes "0 < s"
  shows "seq_shape tr (conv_block w ci co s) (B, C, H, W) =
     (if C \<noteq> ci then Inl err_channels
      else if H = 0 \<or> W = 0 then Inl err_kernel
      else if tr \<and> B = 1 \<and> conv_out_size H 3 s 1 = 1 \<and> conv_out_size W 3 s 1 = 1 then Inl err_batch
      else Inr (B, co, conv_out_size H 3 s 1, conv_out_size W 3 s 1))"
  using assms by (auto simp: conv_block_def conv2d_init_def batchnorm2d_init_def)

lemma seq_shape_final:
  "seq_shape tr [conv2d_init w 128 128 8 (Suc 0) 0, batchnorm2d_init 128] (B, C, H, W) =
     (if C \<noteq> 128 then Inl err_channels
      else if H < 8 \<or> W < 8 then Inl err_kernel
      else if tr \<and> B = 1 \<and> H = 8 \<and> W = 8 then Inl err_batch
      else Inr (B, 128, H - 7, W - 7))"
proof -
  have "8 \<le> n \<Longrightarrow> conv_out_size n 8 1 0 = n - 7" for n
    by (simp add: conv_out_size_def)
  then show ?thesis
    by (auto simp: conv2d_init_def batchnorm2d_init_def)
qed

lemma seq_shape_conv_block_Inr:
  assumes "0 < s"
  shows "seq_shape tr (conv_block w ci co s) (B, C, H, W) = Inr r \<longleftrightarrow>
     C = ci \<and> 0 < H \<and> 0 < W \<and>
     \<not> (tr \<and> B = 1 \<and> conv_out_size H 3 s 1 = 1 \<and> conv_out_size W 3 s 1 = 1) \<and>
     r = (B, co, conv_out_size H 3 s 1, conv_out_size W 3 s 1)"
  using assms by (auto simp: conv_block_def conv2d_init_def batchnorm2d_init_def)

lemma seq_shape_final_Inr:
  "seq_shape tr [conv2d_init w 128 128 8 (Suc 0) 0, batchnorm2d_init 128] (B, C, H, W) = Inr r \<longleftrightarrow>
     C = 128 \<and> 8 \<le> H \<and> 8 \<le> W \<and> \<not> (tr \<and> B = 1 \<and> H = 8 \<and> W = 8) \<and>
     r = (B, 128, H - 7, W - 7)"
proof -
  have "8 \<le> n \<Longrightarrow> conv_out_size n 8 1 0 = n - 7" for n
    by (simp add: conv_out_size_def)
  then show ?thesis
    by (auto simp: conv2d_init_def batchnorm2d_init_def)
qed

lemma seq_shape_instance_norm_Inr:
  "seq_shape tr [InstanceNorm2d n] (B, C, H, W) = Inr r \<longleftrightarrow> H * W \<noteq> 1 \<and> r = (B, C, H, W)"
  by auto

lemma seq_shape_dropout_Inr:
  "0 \<le> p \<Longrightarrow> p \<le> 1 \<Longrightarrow> seq_shape tr [Dropout p] s = Inr r \<longleftrightarrow> r = s"
  by auto

lemma conv_out_size_s1: "0 < H \<Longrightarrow> conv_out_size H 3 (Suc 0) (Suc 0) = H"
  by (simp add: conv_out_size_def)

lemma conv_out_size_s2: "0 < H \<Longrightarrow> conv_out_size H 3 2 (Suc 0) = (H + 1) div 2"
  by (simp add: conv_out_size_def)

lemma sosnet_stack_shape:
  assumes "attrs ''dim_desc'' = Some 128"
  shows "seq_shape tr (map projr (sosnet_layer_args attrs w)) (B, 1, H, W) = Inr s \<longleftrightarrow>
    29 \<le> H \<and> 29 \<le> W \<and> \<not> (tr \<and> B = 1 \<and> H \<le> 32 \<and> W \<le> 32) \<and>
    s = (B, 128, (H + 3) div 4 - 7, (W + 3) div 4 - 7)"
proof -
  have q: "8 \<le> Suc (Suc n div 2) div 2 \<longleftrightarrow> 29 \<le> n"
    "Suc (Suc n div 2) div 2 = (n + 3) div 4" for n :: nat
    by presburger+
  have f: "29 \<le> n \<Longrightarrow> Suc n div 2 \<noteq> Suc 0" "29 \<le> n \<Longrightarrow> (n + 3) div 4 \<noteq> Suc 0"
    "8 \<le> (n + 3) div 4 \<longleftrightarrow> 29 \<le> n" "29 \<le> n \<Longrightarrow> (n + 3) div 4 = 8 \<longleftrightarrow> n \<le> 32"
    for n :: nat
    by presburger+
  show ?thesis
    using assms
    apply (simp only: sosnet_layers_blocks seq_shape_append)
    apply (simp add: ebind_eq_Inr_iff seq_shape_conv_block_Inr seq_shape_final_Inr
        seq_shape_instance_norm_Inr seq_shape_dropout_Inr
        conv_out_size_s1 conv_out_size_s2 q del: seq_shape.simps(2) cong: conj_cong)
    apply (auto simp: f)
    done
qed


lemma sosnet_stack_batch_error:
  assumes "attrs ''dim_desc'' = Some 128"
    and "29 \<le> H" and "H \<le> 32" and "29 \<le> W" and "W \<le> 32"
  shows "seq_shape True (map projr (sosnet_layer_args attrs w)) (1, 1, H, W) = Inl err_batch"
proof -
  have q: "Suc (Suc n div 2) div 2 = (n + 3) div 4" for n :: nat
    by presburger
  have h: "(H + 3) div 4 = 8" "(W + 3) div 4 = 8" "Suc H div 2 \<noteq> Suc 0" "Suc W div 2 \<noteq> Suc 0"
    using assms(2-5) by presburger+
  show ?thesis
    using assms
    apply (simp only: sosnet_layers_blocks seq_shape_append)
    apply (simp add: seq_shape_single seq_shape_conv_block seq_shape_final conv_out_size_s1
        conv_out_size_s2 q h del: seq_shape.simps(2))
    done
qed

subsection \<open>Construction fails on the missing attribute\<close>

text \<open>
  C1: building the modules of \<open>SOSNet.__init__\<close> with the class as the source defines
  it always raises \<open>AttributeError\<close> for \<open>dim_desc\<close>: the twenty arguments before
  \<open>nn.Conv2d(128, self.dim_desc, ...)\<close> evaluate, and that one raises, whatever the
  random weights.
\<close>

theorem sosnet_modules_attribute_error:
  "sosnet_modules sosnet_class_attrs w =
     Inl (AttributeError ''SOSNet object has no attribute dim_desc'')"
  by (simp add: sosnet_modules_def sosnet_layer_args_def get_attr_def sosnet_class_attrs_def
      dropout_init_def)

end
