(* ===== verification/Normalisation.thy ===== *)
theory Normalisation
  imports Layers
begin

text \<open>
  The abstract specification of the descriptor normalisation: every channel vector
  \<open>x[b, :, i, j]\<close> divided by its Euclidean norm (\<open>l2_normalize\<close>). Local response
  normalisation with window \<open>2n\<close>, \<open>alpha = 2n\<close>, \<open>beta = 1/2\<close> and \<open>k = 0\<close> on an
  input of at most \<open>n\<close> channels computes exactly that: the window of every channel
  covers all channels, the average of the squares times \<open>alpha\<close> is their sum, and its
  power \<open>1/2\<close> is the square root. Division by a zero norm is \<open>0\<close> in HOL (NaN in
  floating point); the unit-norm lemma excludes it.
\<close>

definition chan_sq :: "tensor \<Rightarrow> nat \<Rightarrow> nat \<Rightarrow> nat \<Rightarrow> real" where
  "chan_sq x b i j = (case dims x of (B, C, H, W) \<Rightarrow>
     sum_list (map (\<lambda>c. (tget x b c i j)\<^sup>2) [0..<C]))"

definition l2_normalize :: "tensor \<Rightarrow> tensor" where
  "l2_normalize x = tensor_of (dims x) (\<lambda>b c i j. tget x b c i j / sqrt (chan_sq x b i j))"

lemma chan_sq_nonneg: "0 \<le> chan_sq x b i j"
  by (auto simp: chan_sq_def split: prod.splits)

lemma lrn_window_covers:
  assumes "C \<le> n" and "c < C"
  shows "lrn_window (2 * n) C c = [0..<C]"
proof -
  from assms have "c - n = 0" and "C \<le> c + (2 * n - 1) div 2 + 1"
    by simp_all
  then show ?thesis
    by (simp add: lrn_window_def min_absorb1)
qed

lemma lrn_div_l2:
  assumes "dims x = (B, C, H, W)" and "C \<le> n" and "c < C"
  shows "lrn_div (2 * n) (real (2 * n)) (1 / 2) 0 x b c i j = sqrt (chan_sq x b i j)"
proof -
  from assms(2,3) have "0 < n" by simp
  moreover have "0 \<le> chan_sq x b i j"
    by (rule chan_sq_nonneg)
  ultimately show ?thesis
    using assms
    by (simp add: lrn_div_def chan_sq_def lrn_window_covers powr_half_sqrt del: sum_list_map_upt)
qed

lemma lrn_kernel_l2:
  assumes "dims x = (B, C, H, W)" and "C \<le> n"
  shows "lrn_kernel (2 * n) (real (2 * n)) (1 / 2) 0 x = l2_normalize x"
  unfolding lrn_kernel_def l2_normalize_def
proof (rule tensor_of_cong)
  fix b c i j
  assume "in_range (dims x) b c i j"
  with assms(1) have "c < C" by simp
  with assms have "lrn_div (2 * n) (real (2 * n)) (1 / 2) 0 x b c i j = sqrt (chan_sq x b i j)"
    by (intro lrn_div_l2)
  then show "tget x b c i j / lrn_div (2 * n) (real (2 * n)) (1 / 2) 0 x b c i j =
      tget x b c i j / sqrt (chan_sq x b i j)"
    by (simp only:)
qed

lemma dims_l2_normalize [simp]: "dims (l2_normalize x) = dims x"
  by (simp add: l2_normalize_def)

lemma wf_l2_normalize [simp]: "wf_tensor (l2_normalize x)"
  by (simp add: l2_normalize_def)

lemma chan_sq_l2_normalize:
  assumes "dims x = (B, C, H, W)" and "b < B" and "i < H" and "j < W"
    and "chan_sq x b i j \<noteq> 0"
  shows "chan_sq (l2_normalize x) b i j = 1"
proof -
  let ?S = "chan_sq x b i j"
  have S: "0 < ?S"
    using assms(5) chan_sq_nonneg [of x b i j] by linarith
  have "chan_sq (l2_normalize x) b i j = (\<Sum>c<C. (tget x b c i j / sqrt ?S)\<^sup>2)"
    using assms(1-4) by (simp add: chan_sq_def l2_normalize_def tget_tensor_of)
  also have "\<dots> = (\<Sum>c<C. (tget x b c i j)\<^sup>2) / ?S"
    using S by (simp add: power_divide sum_divide_distrib)
  also have "\<dots> = 1"
    using S assms(1) by (simp add: chan_sq_def)
  finally show ?thesis .
qed

end
