(* ===== verification/Network.thy ===== *)
theory Network
  imports SOSNet Normalisation
begin

text \<open>
  The forward pass of \<open>SOSNet\<close> taken apart: its output and its state after the call
  in terms of the two \<open>nn.Sequential\<close> passes, the view of the normalised
  descriptors as rows, and the descriptor stage of the network built with
  \<open>dim_desc = 128\<close>, whose local response normalisation is the L2 normalisation of
  \<open>Normalisation\<close>.
\<close>

lemma snd_sosnet_forward:
  "snd (sosnet_forward keep m x) =
     ebind (snd (seq_forward (training m) keep (layers m) x)) (\<lambda>y.
       ebind (snd (seq_forward (training m) keep (desc_norm m) (map_tensor (\<lambda>v. v + desc_eps) y)))
         view_rows)"
  by (auto simp: sosnet_forward_def split: prod.splits sum.splits)

lemma fst_sosnet_forward:
  "fst (sosnet_forward keep m x) =
     m\<lparr>layers := fst (seq_forward (training m) keep (layers m) x),
       desc_norm := (case snd (seq_forward (training m) keep (layers m) x) of
                       Inl e \<Rightarrow> desc_norm m
                     | Inr y \<Rightarrow> fst (seq_forward (training m) keep (desc_norm m)
                                  (map_tensor (\<lambda>v. v + desc_eps) y)))\<rparr>"
  by (auto simp: sosnet_forward_def split: prod.splits sum.splits)

subsection \<open>The view\<close>

lemma length_flat_image:
  assumes "wf_tensor d" and "dims d = (B, C, H, W)" and "img \<in> set (vals d)"
  shows "length (concat (map concat img)) = C * H * W"
proof -
  from assms have "length img = C"
    and planes: "\<forall>pl\<in>set img. length pl = H \<and> (\<forall>row\<in>set pl. length row = W)"
    by (auto simp: wf_tensor_def list_all_iff)
  have "length (concat pl) = H * W" if "pl \<in> set img" for pl
    using planes that by (simp add: length_concat sum_list_map_const_on)
  then show ?thesis
    using \<open>length img = C\<close> by (simp add: length_concat sum_list_map_const_on)
qed

lemma view_rows_refines:
  assumes "wf_tensor d" and "dims d = (B, C, H, W)"
  shows "case view_rows d of
           Inl e \<Rightarrow> view_shape (B, C, H, W) = Inl e
         | Inr rows \<Rightarrow> view_shape (B, C, H, W) = Inr (length rows, C * H * W) \<and>
             (\<forall>r\<in>set rows. length r = C * H * W)"
proof -
  from assms have "length (vals d) = B"
    by (simp add: wf_tensor_def)
  with assms show ?thesis
    by (auto simp: view_rows_def view_shape_def length_flat_image)
qed

lemma view_row_1x1:
  assumes "wf_tensor d" and "dims d = (B, C, 1, 1)" and "b < B"
  shows "concat (map concat (vals d ! b)) = map (\<lambda>c. tget d b c 0 0) [0..<C]"
proof -
  have "vals d = vals (tensor_of (dims d) (tget d))"
    using assms(1) by (simp add: tensor_of_at)
  with assms(2,3) show ?thesis
    by (simp add: tensor_of_def comp_def)
qed

subsection \<open>The network built with \<open>dim_desc = 128\<close>\<close>

lemma sosnet_modules_128:
  assumes "attrs ''dim_desc'' = Some 128" and "sosnet_modules attrs w = Inr m"
  shows "training m" and "layers m = map projr (sosnet_layer_args attrs w)"
    and "desc_norm m = [LocalResponseNorm (2 * 128) (real (2 * 128)) (1 / 2) 0]"
  using assms sosnet_modules_Inr [where attrs = attrs and d = 128 and w = w, OF assms(1)] by auto

lemma desc_norm_forward_l2:
  assumes "dims z = (B, C, H, W)" and "C \<le> 128"
  shows "seq_forward tr keep [LocalResponseNorm (2 * 128) (real (2 * 128)) (1 / 2) 0] z =
    ([LocalResponseNorm (2 * 128) (real (2 * 128)) (1 / 2) 0], Inr (l2_normalize z))"
proof -
  have "lrn_kernel (2 * 128) (real (2 * 128)) (1 / 2) 0 z = l2_normalize z"
    using assms by (rule lrn_kernel_l2)
  then show ?thesis
    by (simp add: seq_forward.simps(2))
qed

lemma desc_norm_shape_128:
  "seq_shape tr [LocalResponseNorm (2 * 128) (real (2 * 128)) (1 / 2) 0] s = Inr s"
  by simp

subsection \<open>The forward pass implements the network contract\<close>

lemma sosnet_forward_contract:
  assumes "wf_tensor x"
  shows "case snd (sosnet_forward keep m x) of
           Inl e \<Rightarrow> sosnet_shape (training m) m (dims x) = Inl e
         | Inr rows \<Rightarrow> \<exists>D. sosnet_shape (training m) m (dims x) = Inr (length rows, D) \<and>
             (\<forall>r\<in>set rows. length r = D)"
proof -
  let ?tr = "training m"
  have L: "seq_shape ?tr (layers m) (dims x) = map_sum id dims (snd (seq_forward ?tr keep (layers m) x))"
    using assms by (rule seq_forward_refines_shape [symmetric])
  show ?thesis
  proof (cases "snd (seq_forward ?tr keep (layers m) x)")
    case (Inl e)
    with L show ?thesis
      by (simp add: snd_sosnet_forward sosnet_shape_def)
  next
    case (Inr y)
    let ?z = "map_tensor (\<lambda>v. v + desc_eps) y"
    have wz: "wf_tensor ?z" by simp
    have D: "seq_shape ?tr (desc_norm m) (dims y) = map_sum id dims (snd (seq_forward ?tr keep (desc_norm m) ?z))"
      using seq_forward_refines_shape [OF wz, of ?tr keep "desc_norm m"] by simp
    show ?thesis
    proof (cases "snd (seq_forward ?tr keep (desc_norm m) ?z)")
      case (Inl e)
      with L D \<open>snd (seq_forward ?tr keep (layers m) x) = Inr y\<close> show ?thesis
        by (simp add: snd_sosnet_forward sosnet_shape_def)
    next
      case (Inr d)
      have wd: "wf_tensor d"
        using seq_forward_wf [OF wz Inr] .
      obtain B C H W where dd: "dims d = (B, C, H, W)"
        by (cases "dims d") auto
      have V: "case view_rows d of
           Inl e \<Rightarrow> view_shape (B, C, H, W) = Inl e
         | Inr rows \<Rightarrow> view_shape (B, C, H, W) = Inr (length rows, C * H * W) \<and>
             (\<forall>r\<in>set rows. length r = C * H * W)"
        using wd dd by (rule view_rows_refines)
      with L D Inr dd \<open>snd (seq_forward ?tr keep (layers m) x) = Inr y\<close> show ?thesis
        by (auto simp: snd_sosnet_forward sosnet_shape_def split: sum.splits)
    qed
  qed
qed

lemma sosnet_shape_built:
  assumes "attrs ''dim_desc'' = Some 128" and "sosnet_modules attrs w = Inr m"
  shows "sosnet_shape tr m (B, 1, H, W) = Inr r \<longleftrightarrow>
    0 < B \<and> 29 \<le> H \<and> 29 \<le> W \<and> \<not> (tr \<and> B = 1 \<and> H \<le> 32 \<and> W \<le> 32) \<and>
    r = (B, 128 * ((H + 3) div 4 - 7) * ((W + 3) div 4 - 7))"
proof -
  note built = sosnet_modules_128 [where attrs = attrs, OF assms]
  have stack: "seq_shape tr (layers m) (B, Suc 0, H, W) = Inr s \<longleftrightarrow>
    29 \<le> H \<and> 29 \<le> W \<and> \<not> (tr \<and> B = 1 \<and> H \<le> 32 \<and> W \<le> 32) \<and>
    s = (B, 128, (H + 3) div 4 - 7, (W + 3) div 4 - 7)" for s
    using sosnet_stack_shape [where attrs = attrs, OF assms(1)] built(2) by simp
  show ?thesis
    using built(3)
    by (auto simp: sosnet_shape_def ebind_eq_Inr_iff stack view_shape_def)
qed

lemma sosnet_shape_train [simp]: "sosnet_shape tr (sosnet_train mode m) = sosnet_shape tr m"
  by (simp add: sosnet_shape_def sosnet_train_def fun_eq_iff)

lemma training_sosnet_train [simp]: "training (sosnet_train mode m) = mode"
  by (simp add: sosnet_train_def)

lemma sosnet_forward_built:
  assumes "attrs ''dim_desc'' = Some 128" and "sosnet_modules attrs w = Inr m"
    and "wf_tensor x" and "dims x = (B, 1, H, W)"
  shows "case snd (sosnet_forward keep (sosnet_train tr m) x) of
           Inl e \<Rightarrow> \<not> (0 < B \<and> 29 \<le> H \<and> 29 \<le> W \<and> \<not> (tr \<and> B = 1 \<and> H \<le> 32 \<and> W \<le> 32))
         | Inr rows \<Rightarrow> 0 < B \<and> 29 \<le> H \<and> 29 \<le> W \<and> \<not> (tr \<and> B = 1 \<and> H \<le> 32 \<and> W \<le> 32) \<and>
             length rows = B \<and> (\<forall>r\<in>set rows. length r = 128 * ((H + 3) div 4 - 7) * ((W + 3) div 4 - 7))"
proof -
  have C: "case snd (sosnet_forward keep (sosnet_train tr m) x) of
           Inl e \<Rightarrow> sosnet_shape tr m (B, 1, H, W) = Inl e
         | Inr rows \<Rightarrow> \<exists>D. sosnet_shape tr m (B, 1, H, W) = Inr (length rows, D) \<and>
             (\<forall>r\<in>set rows. length r = D)"
    using sosnet_forward_contract [OF assms(3), where keep = keep and m = "sosnet_train tr m"]
    by (simp only: sosnet_shape_train training_sosnet_train assms(4))
  have S: "sosnet_shape tr m (B, 1, H, W) = Inr r \<longleftrightarrow>
    0 < B \<and> 29 \<le> H \<and> 29 \<le> W \<and> \<not> (tr \<and> B = 1 \<and> H \<le> 32 \<and> W \<le> 32) \<and>
    r = (B, 128 * ((H + 3) div 4 - 7) * ((W + 3) div 4 - 7))" for r
    using assms(1,2) by (rule sosnet_shape_built)
  show ?thesis
  proof (cases "snd (sosnet_forward keep (sosnet_train tr m) x)")
    case (Inl e)
    with C S [of "(B, 128 * ((H + 3) div 4 - 7) * ((W + 3) div 4 - 7))"] show ?thesis
      by auto
  next
    case (Inr rows)
    with C S show ?thesis
      by auto
  qed
qed

lemma sosnet_forward_built_ok:
  assumes "attrs ''dim_desc'' = Some 128" and "sosnet_modules attrs w = Inr m"
    and "wf_tensor x" and "dims x = (B, 1, H, W)"
    and "0 < B" and "29 \<le> H" and "29 \<le> W" and "\<not> (tr \<and> B = 1 \<and> H \<le> 32 \<and> W \<le> 32)"
  shows "\<exists>rows. snd (sosnet_forward keep (sosnet_train tr m) x) = Inr rows \<and> length rows = B \<and>
    (\<forall>r\<in>set rows. length r = 128 * ((H + 3) div 4 - 7) * ((W + 3) div 4 - 7))"
  using sosnet_forward_built [OF assms(1-4), where keep = keep and tr = tr] assms(5-8)
  by (auto split: sum.splits)

subsection \<open>Descriptor rows\<close>

lemma desc_rows_unit:
  assumes "wf_tensor z" and "dims z = (B, C, 1, 1)"
    and "view_rows (l2_normalize z) = Inr rows" and "r \<in> set rows"
  shows "sum_list (map (\<lambda>v. v\<^sup>2) r) = 1 \<or> (\<forall>v\<in>set r. v = 0)"
proof -
  let ?d = "l2_normalize z"
  have dd: "dims ?d = (B, C, 1, 1)" and wd: "wf_tensor ?d"
    using assms(2) by simp_all
  from assms(3) dd have rows: "rows = map (\<lambda>img. concat (map concat img)) (vals ?d)"
    by (auto simp: view_rows_def split: if_splits)
  from wd dd have "length (vals ?d) = B"
    by (simp add: wf_tensor_def)
  with assms(4) rows obtain b where b: "b < B" and r: "r = concat (map concat (vals ?d ! b))"
    by (auto simp: in_set_conv_nth)
  have r': "r = map (\<lambda>c. tget ?d b c 0 0) [0..<C]"
    using wd dd b r by (simp add: view_row_1x1)
  have sq: "sum_list (map (\<lambda>v. v\<^sup>2) r) = chan_sq ?d b 0 0"
    using dd r' by (simp add: chan_sq_def comp_def del: sum_list_map_upt)
  show ?thesis
  proof (cases "chan_sq z b 0 0 = 0")
    case False
    with assms(2) b have "chan_sq ?d b 0 0 = 1"
      by (intro chan_sq_l2_normalize [where B = B and C = C and H = 1 and W = 1]) simp_all
    with sq show ?thesis by simp
  next
    case True
    have "tget ?d b c 0 0 = 0" if "c < C" for c
      using True assms(2) b that by (simp add: l2_normalize_def tget_tensor_of)
    with r' show ?thesis by auto
  qed
qed

end
