(* ===== verification/Keys.thy ===== *)
theory Keys
  imports Prelude
begin

text \<open>
  The strings of state-dictionary keys: Python's \<open>str(i)\<close> of a child index
  (\<open>nat_str\<close>), \<open>str.startswith\<close> (\<open>starts_with\<close>), the first dot-separated segment
  \<open>s.split('.', 1)[0]\<close> (\<open>first_seg\<close>) and \<open>sep.join(xs)\<close> (\<open>join\<close>). The lemmas show
  that \<open>nat_str\<close> is injective (its parser inverts it) and contains no dot, so the
  key \<open>p + str(i) + '.' + name\<close> determines \<open>i\<close> and \<open>name\<close>.
\<close>

definition digits :: string where
  "digits = ''0123456789''"

fun nat_str :: "nat \<Rightarrow> string" where
  "nat_str n = (if n < 10 then [] else nat_str (n div 10)) @ [digits ! (n mod 10)]"

definition str_nat :: "string \<Rightarrow> nat" where
  "str_nat s = foldl (\<lambda>acc c. 10 * acc + (of_char c - 48)) 0 s"

definition starts_with :: "string \<Rightarrow> string \<Rightarrow> bool" where
  "starts_with p k \<longleftrightarrow> take (length p) k = p"

definition first_seg :: "string \<Rightarrow> string" where
  "first_seg s = takeWhile (\<lambda>c. c \<noteq> CHR ''.'') s"

fun join :: "string \<Rightarrow> string list \<Rightarrow> string" where
  "join sep [] = []"
| "join sep [x] = x"
| "join sep (x # y # zs) = x @ sep @ join sep (y # zs)"

declare nat_str.simps [simp del]

lemma str_nat_snoc: "str_nat (xs @ [c]) = 10 * str_nat xs + (of_char c - 48)"
  by (simp add: str_nat_def)

lemma of_char_digit: "(d::nat) < 10 \<Longrightarrow> of_char (digits ! d) = (48 + d :: nat)"
proof -
  have "\<forall>d\<in>set [0..<10]. of_char (digits ! d) = (48 + d :: nat)"
    by (simp add: upt_rec digits_def)
  then show "d < 10 \<Longrightarrow> ?thesis" by simp
qed

lemma digit_not_dot: "(d::nat) < 10 \<Longrightarrow> digits ! d \<noteq> CHR ''.''"
proof -
  assume "d < 10"
  then have "digits ! d \<in> set digits" by (intro nth_mem) (simp add: digits_def)
  then show ?thesis by (auto simp: digits_def)
qed

lemma str_nat_nat_str [simp]: "str_nat (nat_str n) = n"
proof (induction n rule: nat_str.induct)
  case (1 n)
  show ?case
  proof (cases "n < 10")
    case True
    then show ?thesis
      by (simp add: nat_str.simps [of n] str_nat_snoc of_char_digit str_nat_def)
  next
    case False
    with 1 have "str_nat (nat_str (n div 10)) = n div 10" by simp
    with False show ?thesis
      by (simp add: nat_str.simps [of n] str_nat_snoc of_char_digit)
  qed
qed

lemma nat_str_inj [simp]: "nat_str i = nat_str j \<longleftrightarrow> i = j"
  by (metis str_nat_nat_str)

lemma dot_notin_nat_str [simp]: "CHR ''.'' \<notin> set (nat_str n)"
proof (induction n rule: nat_str.induct)
  case (1 n)
  have "digits ! (n mod 10) \<noteq> CHR ''.''"
    by (simp add: digit_not_dot)
  with 1 show ?case
    by (auto simp: nat_str.simps [of n])
qed

lemma nat_str_ne [simp]: "nat_str n \<noteq> []"
  by (simp add: nat_str.simps [of n])

lemma first_seg_dot: "CHR ''.'' \<notin> set a \<Longrightarrow> first_seg (a @ CHR ''.'' # b) = a"
  by (induction a) (auto simp: first_seg_def)

lemma first_seg_nodot: "CHR ''.'' \<notin> set a \<Longrightarrow> first_seg a = a"
  by (auto simp: first_seg_def takeWhile_eq_all_conv)

lemma dot_split_inj:
  assumes "CHR ''.'' \<notin> set a" and "CHR ''.'' \<notin> set a'"
  shows "a @ CHR ''.'' # b = a' @ CHR ''.'' # b' \<longleftrightarrow> a = a' \<and> b = b'"
proof
  assume eq: "a @ CHR ''.'' # b = a' @ CHR ''.'' # b'"
  then have "first_seg (a @ CHR ''.'' # b) = first_seg (a' @ CHR ''.'' # b')" by simp
  with assms have "a = a'" by (simp add: first_seg_dot)
  with eq show "a = a' \<and> b = b'" by simp
qed simp

lemma starts_with_append [simp]: "starts_with p (p @ s)"
  by (simp add: starts_with_def)

lemma starts_with_iff: "starts_with p k \<longleftrightarrow> (\<exists>s. k = p @ s)"
  by (metis append_take_drop_id starts_with_append starts_with_def)

lemma starts_with_index_key:
  "starts_with (p @ nat_str j @ ''.'') (p @ nat_str i @ ''.'' @ nm) \<longleftrightarrow> i = j"
proof
  assume "starts_with (p @ nat_str j @ ''.'') (p @ nat_str i @ ''.'' @ nm)"
  then obtain s where "nat_str i @ CHR ''.'' # nm = nat_str j @ CHR ''.'' # s"
    by (auto simp: starts_with_iff)
  then show "i = j"
    by (simp add: dot_split_inj)
qed (metis append.assoc starts_with_append)

end
