(* ===== verification/StateDict.thy ===== *)
theory StateDict
  imports SOSNet Keys
begin

text \<open>
  \<open>nn.Module.state_dict()\<close> and \<open>nn.Module.load_state_dict(sd, strict=True)\<close> for
  the module tree of \<open>SOSNet\<close> (the root, its two \<open>nn.Sequential\<close> children, their
  indexed children), as the framework of the code's time (torch 1.x) implements them.
  A state dictionary is a Python dict from dotted keys to tensors: an association list
  in insertion order. Loading visits the modules depth first; each copies the entries
  named \<open>prefix + local name\<close> into its parameters and buffers, records the missing
  keys, the size mismatches and the keys under its prefix it does not know; the two
  normalisation layers first apply their version fixes (a batch normalisation saved
  without \<open>num_batches_tracked\<close> gets 0; an instance normalisation rejects running
  statistics). With \<open>strict=True\<close> any of these raises \<open>RuntimeError\<close> at the end,
  after the copies are done.
\<close>

subsection \<open>Tensors in a state dictionary\<close>

text \<open>
  A float tensor with its shape and its elements in row-major order, or the 0-dimensional
  long tensor \<open>num_batches_tracked\<close>.
\<close>

datatype pvalue = PFloat "nat list" "real list" | PLong int

fun pshape :: "pvalue \<Rightarrow> nat list" where
  "pshape (PFloat s xs) = s"
| "pshape (PLong c) = []"

fun wf_pvalue :: "pvalue \<Rightarrow> bool" where
  "wf_pvalue (PFloat s xs) \<longleftrightarrow> length xs = prod_list s"
| "wf_pvalue (PLong c) \<longleftrightarrow> True"

type_synonym state_dict = "(string \<times> pvalue) list"

text \<open>The \<open>_metadata\<close> of a saved state dictionary: module path to \<open>_version\<close>.\<close>

type_synonym metadata = "string \<rightharpoonup> nat"

definition shape_list :: "shape4 \<Rightarrow> nat list" where
  "shape_list s = (case s of (B, C, H, W) \<Rightarrow> [B, C, H, W])"

definition flat4 :: "tensor \<Rightarrow> real list" where
  "flat4 t = concat (concat (concat (vals t)))"

definition unflat4 :: "shape4 \<Rightarrow> real list \<Rightarrow> tensor" where
  "unflat4 s xs = (case s of (B, C, H, W) \<Rightarrow>
     tensor_of s (\<lambda>b c i j. xs ! (((b * C + c) * H + i) * W + j)))"

text \<open>\<open>param.copy_(input)\<close>: a float parameter takes the elements; the long counter takes
  the float truncated toward zero.\<close>

definition trunc_real :: "real \<Rightarrow> int" where
  "trunc_real r = (if 0 \<le> r then \<lfloor>r\<rfloor> else \<lceil>r\<rceil>)"

fun to_floats :: "pvalue \<Rightarrow> real list" where
  "to_floats (PFloat s xs) = xs"
| "to_floats (PLong c) = [of_int c]"

fun to_long :: "pvalue \<Rightarrow> int" where
  "to_long (PLong c) = c"
| "to_long (PFloat s xs) = trunc_real (hd xs)"

subsection \<open>The parameters and buffers of a module\<close>

text \<open>
  \<open>local_state\<close>: the parameters and buffers that are not \<open>None\<close>, in registration
  order. The convolutions have \<open>bias=False\<close> and the batch normalisations
  \<open>affine=False\<close>, so only the weight and the running statistics remain; the other
  modules have none.
\<close>

fun layer_locals :: "layer \<Rightarrow> (string \<times> pvalue) list" where
  "layer_locals (Conv2d ci co k s p wt) = [(''weight'', PFloat (shape_list (dims wt)) (flat4 wt))]"
| "layer_locals (BatchNorm2d n rm rv c) =
     [(''running_mean'', PFloat [length rm] rm), (''running_var'', PFloat [length rv] rv),
      (''num_batches_tracked'', PLong c)]"
| "layer_locals _ = []"

fun layer_set :: "string \<Rightarrow> pvalue \<Rightarrow> layer \<Rightarrow> layer" where
  "layer_set nm v (Conv2d ci co k s p wt) =
     (if nm = ''weight'' then Conv2d ci co k s p (unflat4 (dims wt) (to_floats v))
      else Conv2d ci co k s p wt)"
| "layer_set nm v (BatchNorm2d n rm rv c) =
     (if nm = ''running_mean'' then BatchNorm2d n (to_floats v) rv c
      else if nm = ''running_var'' then BatchNorm2d n rm (to_floats v) c
      else if nm = ''num_batches_tracked'' then BatchNorm2d n rm rv (to_long v)
      else BatchNorm2d n rm rv c)"
| "layer_set nm v l = l"

text \<open>\<open>state_dict()\<close>: every module's local state under its dotted prefix, depth first.\<close>

fun seq_state :: "string \<Rightarrow> nat \<Rightarrow> layer list \<Rightarrow> state_dict" where
  "seq_state p i [] = []"
| "seq_state p i (l # ls) =
     map (\<lambda>(nm, v). (p @ nat_str i @ ''.'' @ nm, v)) (layer_locals l) @ seq_state p (Suc i) ls"

definition sosnet_state_dict :: "sosnet \<Rightarrow> state_dict" where
  "sosnet_state_dict m = seq_state ''layers.'' 0 (layers m) @ seq_state ''desc_norm.'' 0 (desc_norm m)"

subsection \<open>Error messages\<close>

definition dq :: "string \<Rightarrow> string" where
  "dq k = CHR 0x22 # k @ [CHR 0x22]"

definition shape_str :: "nat list \<Rightarrow> string" where
  "shape_str s = ''torch.Size(['' @ join '', '' (map nat_str s) @ ''])''"

definition size_mismatch_msg :: "string \<Rightarrow> nat list \<Rightarrow> nat list \<Rightarrow> string" where
  "size_mismatch_msg k si sp =
     ''size mismatch for '' @ k @ '': copying a param with shape '' @ shape_str si @
     '' from checkpoint, the shape in current model is '' @ shape_str sp @ ''.''"

definition in_stats_msg :: "string list \<Rightarrow> string" where
  "in_stats_msg ks =
     ''Unexpected running stats buffer(s) '' @ join '' and '' (map dq ks) @
     '' for InstanceNorm2d with track_running_stats=False. If state_dict is a checkpoint saved before 0.4.0, this may be expected because InstanceNorm2d does not track running stats by default since 0.4.0. Please remove these keys from state_dict. If the running stats are actually needed, instead set track_running_stats=True in InstanceNorm2d to enable them. See the documentation of InstanceNorm2d for details.''"

definition err_index0 :: error where
  "err_index0 = IndexError ''index 0 is out of bounds for dimension 0 with size 0''"

subsection \<open>Loading\<close>

text \<open>The lists \<open>load_state_dict\<close> accumulates, and its copy of the dictionary.\<close>

record ldst =
  sd :: state_dict
  missing :: "string list"
  unexpected :: "string list"
  msgs :: "string list"

text \<open>Loading a 1-dimensional tensor into a 0-dimensional one takes its first element
  (compatibility with checkpoints of torch 0.3); an empty one raises.\<close>

definition compat_0dim :: "nat list \<Rightarrow> pvalue \<Rightarrow> error + pvalue" where
  "compat_0dim sp v =
     (if sp = [] \<and> length (pshape v) = 1 then
        (case v of
           PFloat s xs \<Rightarrow> if hd s = 0 then Inl err_index0 else Inr (PFloat [] [hd xs])
         | PLong c \<Rightarrow> Inr v)
      else Inr v)"

text \<open>The loop over \<open>local_state\<close> of \<open>Module._load_from_state_dict\<close>.\<close>

fun load_locals :: "string \<Rightarrow> (string \<times> pvalue) list \<Rightarrow> layer \<Rightarrow> ldst \<Rightarrow> layer \<times> (error + ldst)" where
  "load_locals p [] l st = (l, Inr st)"
| "load_locals p ((nm, cur) # rest) l st =
     (case map_of (sd st) (p @ nm) of
        None \<Rightarrow> load_locals p rest l (st\<lparr>missing := missing st @ [p @ nm]\<rparr>)
      | Some v \<Rightarrow>
          (case compat_0dim (pshape cur) v of
             Inl e \<Rightarrow> (l, Inl e)
           | Inr v' \<Rightarrow>
               if pshape v' \<noteq> pshape cur
               then load_locals p rest l
                      (st\<lparr>msgs := msgs st @ [size_mismatch_msg (p @ nm) (pshape v') (pshape cur)]\<rparr>)
               else load_locals p rest (layer_set nm v' l) st))"

text \<open>The unexpected-key loop: a key under the prefix whose first segment is neither a
  child nor a local name.\<close>

definition unexpected_at :: "string \<Rightarrow> string list \<Rightarrow> state_dict \<Rightarrow> string list" where
  "unexpected_at p names d =
     filter (\<lambda>k. starts_with p k \<and> first_seg (drop (length p) k) \<notin> set names) (map fst d)"

text \<open>\<open>_NormBase._load_from_state_dict\<close>: a state saved before version 2 may lack the
  counter, which then loads as 0.\<close>

definition bn_counter_default :: "metadata \<Rightarrow> string \<Rightarrow> ldst \<Rightarrow> ldst" where
  "bn_counter_default ver p st =
     (if (case ver (butlast p) of None \<Rightarrow> True | Some v \<Rightarrow> v < 2) \<and>
         map_of (sd st) (p @ ''num_batches_tracked'') = None
      then st\<lparr>sd := sd st @ [(p @ ''num_batches_tracked'', PLong 0)]\<rparr>
      else st)"

text \<open>\<open>_InstanceNorm._load_from_state_dict\<close>: without a version, running statistics
  are an error and are dropped from the dictionary.\<close>

definition in_running_stats :: "metadata \<Rightarrow> string \<Rightarrow> ldst \<Rightarrow> ldst" where
  "in_running_stats ver p st =
     (let ks = filter (\<lambda>k. map_of (sd st) k \<noteq> None) [p @ ''running_mean'', p @ ''running_var''] in
      if ver (butlast p) = None \<and> ks \<noteq> []
      then st\<lparr>msgs := msgs st @ [in_stats_msg ks], sd := filter (\<lambda>kv. fst kv \<notin> set ks) (sd st)\<rparr>
      else st)"

fun layer_prepare :: "metadata \<Rightarrow> string \<Rightarrow> layer \<Rightarrow> ldst \<Rightarrow> ldst" where
  "layer_prepare ver p (BatchNorm2d n rm rv c) st = bn_counter_default ver p st"
| "layer_prepare ver p (InstanceNorm2d n) st = in_running_stats ver p st"
| "layer_prepare ver p l st = st"

definition load_leaf :: "metadata \<Rightarrow> string \<Rightarrow> layer \<Rightarrow> ldst \<Rightarrow> layer \<times> (error + ldst)" where
  "load_leaf ver p l st =
     (case load_locals p (layer_locals l) l (layer_prepare ver p l st) of
        (l', Inl e) \<Rightarrow> (l', Inl e)
      | (l', Inr st') \<Rightarrow>
          (l', Inr (st'\<lparr>unexpected := unexpected st' @ unexpected_at p (map fst (layer_locals l)) (sd st')\<rparr>)))"

text \<open>A module without local state (the root, a \<open>Sequential\<close>): only the unexpected keys.\<close>

definition load_node :: "string \<Rightarrow> string list \<Rightarrow> ldst \<Rightarrow> ldst" where
  "load_node p names st = st\<lparr>unexpected := unexpected st @ unexpected_at p names (sd st)\<rparr>"

fun load_children :: "metadata \<Rightarrow> string \<Rightarrow> nat \<Rightarrow> layer list \<Rightarrow> ldst \<Rightarrow> layer list \<times> (error + ldst)" where
  "load_children ver p i [] st = ([], Inr st)"
| "load_children ver p i (l # ls) st =
     (case load_leaf ver (p @ nat_str i @ ''.'') l st of
        (l', Inl e) \<Rightarrow> (l' # ls, Inl e)
      | (l', Inr st') \<Rightarrow> (case load_children ver p (Suc i) ls st' of (ls', r) \<Rightarrow> (l' # ls', r)))"

definition load_sequential :: "metadata \<Rightarrow> string \<Rightarrow> layer list \<Rightarrow> ldst \<Rightarrow> layer list \<times> (error + ldst)" where
  "load_sequential ver p ls st = load_children ver p 0 ls (load_node p (map nat_str [0..<length ls]) st)"

text \<open>The end of \<open>load_state_dict\<close>: missing keys first, then unexpected keys, then the
  other messages; any of them raises.\<close>

definition strict_errors :: "ldst \<Rightarrow> string list" where
  "strict_errors st =
     (if missing st = [] then []
      else [''Missing key(s) in state_dict: '' @ join '', '' (map dq (missing st)) @ ''. '']) @
     (if unexpected st = [] then []
      else [''Unexpected key(s) in state_dict: '' @ join '', '' (map dq (unexpected st)) @ ''. '']) @
     msgs st"

definition strict_result :: "ldst \<Rightarrow> error + unit" where
  "strict_result st =
     (if strict_errors st = [] then Inr ()
      else Inl (RuntimeError (''Error(s) in loading state_dict for SOSNet:'' @ [CHR 0x0A, CHR 0x09] @
                              join [CHR 0x0A, CHR 0x09] (strict_errors st))))"

definition load_state_dict :: "metadata \<Rightarrow> sosnet \<Rightarrow> state_dict \<Rightarrow> sosnet \<times> (error + unit)" where
  "load_state_dict ver m d =
     (let st0 = load_node [] [''layers'', ''desc_norm'']
                  \<lparr>sd = d, missing = [], unexpected = [], msgs = []\<rparr> in
      case load_sequential ver ''layers.'' (layers m) st0 of
        (ls', Inl e) \<Rightarrow> (m\<lparr>layers := ls'\<rparr>, Inl e)
      | (ls', Inr st1) \<Rightarrow>
          (case load_sequential ver ''desc_norm.'' (desc_norm m) st1 of
             (dn', Inl e) \<Rightarrow> (m\<lparr>layers := ls', desc_norm := dn'\<rparr>, Inl e)
           | (dn', Inr st2) \<Rightarrow> (m\<lparr>layers := ls', desc_norm := dn'\<rparr>, strict_result st2)))"

subsection \<open>Architecture\<close>

text \<open>
  What a state dictionary must agree with: a module with its parameter and buffer
  values erased. Two modules with the same architecture have the same keys and shapes.
\<close>

fun layer_arch :: "layer \<Rightarrow> layer" where
  "layer_arch (Conv2d ci co k s p wt) = Conv2d ci co k s p (tensor_of (dims wt) (\<lambda>_ _ _ _. 0))"
| "layer_arch (BatchNorm2d n rm rv c) = BatchNorm2d n (replicate (length rm) 0) (replicate (length rv) 0) 0"
| "layer_arch l = l"

fun wf_layer :: "layer \<Rightarrow> bool" where
  "wf_layer (Conv2d ci co k s p wt) \<longleftrightarrow> wf_tensor wt"
| "wf_layer l \<longleftrightarrow> True"

subsection \<open>Flattening, keys and the unexpected-key checks\<close>

lemma unflat4_flat4:
  assumes "wf_tensor t"
  shows "unflat4 (dims t) (flat4 t) = t"
proof -
  obtain B C H W where d: "dims t = (B, C, H, W)"
    by (cases "dims t") auto
  let ?V = "vals t"
  from assms d have len: "length ?V = B"
    and c: "\<forall>img\<in>set ?V. length img = C"
    and h: "\<forall>pl\<in>set (concat ?V). length pl = H"
    and w: "\<forall>row\<in>set (concat (concat ?V)). length row = W"
    by (auto simp: wf_tensor_def list_all_iff)
  have lc: "length (concat ?V) = B * C"
    by (simp only: length_concat_uniform [OF c] len)
  have lh: "length (concat (concat ?V)) = B * C * H"
    by (simp only: length_concat_uniform [OF h] lc)
  have "flat4 t ! (((b * C + c) * H + i) * W + j) = tget t b c i j"
    if "in_range (dims t) b c i j" for b c i j
  proof -
    from that d have r: "b < B" "c < C" "i < H" "j < W" by simp_all
    have bc: "b * C + c < B * C" using r by (simp add: idx_less)
    have bch: "(b * C + c) * H + i < B * C * H" using bc r by (simp add: idx_less)
    have "flat4 t ! (((b * C + c) * H + i) * W + j) = concat (concat ?V) ! ((b * C + c) * H + i) ! j"
      unfolding flat4_def using w lh bch r by (intro concat_nth_uniform) simp_all
    also have "concat (concat ?V) ! ((b * C + c) * H + i) = concat ?V ! (b * C + c) ! i"
      using h lc bc r by (intro concat_nth_uniform) simp_all
    also have "concat ?V ! (b * C + c) = ?V ! b ! c"
      using c len r by (intro concat_nth_uniform) simp_all
    finally show ?thesis by (simp add: tget_def)
  qed
  then have "unflat4 (dims t) (flat4 t) = tensor_of (dims t) (tget t)"
    unfolding unflat4_def d by (auto intro: tensor_of_cong)
  also have "\<dots> = t" using assms by (rule tensor_of_at)
  finally show ?thesis .
qed


lemma map_of_map_key_inj:
  "inj f \<Longrightarrow> map_of (map (\<lambda>(nm, v). (f nm, v)) xs) (f x) = map_of xs x"
  by (induction xs) (auto simp: inj_eq)

lemma map_of_map_key_none:
  "(\<And>nm. k \<noteq> f nm) \<Longrightarrow> map_of (map (\<lambda>(nm, v). (f nm, v)) xs) k = None"
  by (induction xs) force+

lemma index_key_inj: "inj (\<lambda>nm. p @ nat_str i @ ''.'' @ nm)"
  by (rule injI) simp

lemma index_key_eq [simp]:
  "nat_str j @ CHR ''.'' # a = nat_str i @ CHR ''.'' # b \<longleftrightarrow> j = i \<and> a = b"
  by (simp add: dot_split_inj)

lemma map_of_seq_state:
  "map_of (seq_state p i ls) (p @ nat_str j @ ''.'' @ nm) =
     (if i \<le> j \<and> j < i + length ls then map_of (layer_locals (ls ! (j - i))) nm else None)"
proof (induction ls arbitrary: i)
  case Nil
  then show ?case by auto
next
  case (Cons l ls)
  show ?case
  proof (cases "j = i")
    case True
    then show ?thesis
      using Cons.IH [of "Suc i"] map_of_map_key_inj [OF index_key_inj, of p i "layer_locals l" nm]
      by (auto simp: map_of_append map_add_def split: option.split)
  next
    case False
    then have "map_of (map (\<lambda>(nm, v). (p @ nat_str i @ ''.'' @ nm, v)) (layer_locals l))
        (p @ nat_str j @ ''.'' @ nm) = None"
      by (intro map_of_map_key_none) simp
    with False show ?thesis
      using Cons.IH [of "Suc i"]
      by (auto simp: map_of_append map_add_def nth_Cons' Suc_diff_Suc not_less_eq_eq split: option.split)
  qed
qed

lemma map_of_seq_state_other:
  "(\<And>s. k \<noteq> p @ s) \<Longrightarrow> map_of (seq_state p i ls) k = None"
  by (induction ls arbitrary: i) (auto simp: map_of_append intro!: map_of_map_key_none)


lemma keys_seq_state:
  "k \<in> set (map fst (seq_state p i ls)) \<Longrightarrow>
   \<exists>j nm. k = p @ nat_str j @ ''.'' @ nm \<and> i \<le> j \<and> j < i + length ls \<and>
     nm \<in> set (map fst (layer_locals (ls ! (j - i))))"
proof (induction ls arbitrary: i)
  case Nil
  then show ?case by simp
next
  case (Cons l ls)
  show ?case
  proof (cases "k \<in> set (map fst (seq_state p (Suc i) ls))")
    case True
    from Cons.IH [OF True] obtain j nm where "k = p @ nat_str j @ ''.'' @ nm"
      and "Suc i \<le> j" and "j < Suc i + length ls"
      and "nm \<in> set (map fst (layer_locals (ls ! (j - Suc i))))"
      by blast
    then show ?thesis
      by (intro exI [of _ j] exI [of _ nm]) (simp add: nth_Cons' Suc_diff_Suc)
  next
    case False
    with Cons.prems show ?thesis
      by (auto simp: image_iff) (metis diff_self_eq_0 le_refl less_add_Suc1 nth_Cons_0 fst_conv image_eqI)
  qed
qed

lemma locals_nodot: "nm \<in> set (map fst (layer_locals l)) \<Longrightarrow> CHR ''.'' \<notin> set nm"
  by (cases l) auto

lemma unexpected_at_append [simp]:
  "unexpected_at p names (d @ e) = unexpected_at p names d @ unexpected_at p names e"
  by (simp add: unexpected_at_def)

lemma unexpected_at_Nil_iff:
  "unexpected_at p names d = [] \<longleftrightarrow>
   (\<forall>k\<in>set (map fst d). starts_with p k \<longrightarrow> first_seg (drop (length p) k) \<in> set names)"
  by (auto simp: unexpected_at_def filter_empty_conv)

lemma unexpected_seq_state_Nil:
  assumes "\<And>j nm. i \<le> j \<Longrightarrow> j < i + length ls \<Longrightarrow>
      nm \<in> set (map fst (layer_locals (ls ! (j - i)))) \<Longrightarrow>
      starts_with q (p @ nat_str j @ ''.'' @ nm) \<Longrightarrow>
      first_seg (drop (length q) (p @ nat_str j @ ''.'' @ nm)) \<in> set names"
  shows "unexpected_at q names (seq_state p i ls) = []"
  unfolding unexpected_at_Nil_iff
proof (intro ballI impI)
  fix k
  assume "k \<in> set (map fst (seq_state p i ls))" and "starts_with q k"
  with assms show "first_seg (drop (length q) k) \<in> set names"
    by (blast dest: keys_seq_state)
qed

lemma unexpected_seq_node:
  "i + length ls \<le> n \<Longrightarrow> unexpected_at p (map nat_str [0..<n]) (seq_state p i ls) = []"
  by (rule unexpected_seq_state_Nil) (simp add: first_seg_dot)

lemma unexpected_seq_child:
  assumes "i \<le> j" and "j < i + length ls"
  shows "unexpected_at (p @ nat_str j @ ''.'') (map fst (layer_locals (ls ! (j - i)))) (seq_state p i ls) = []"
proof (rule unexpected_seq_state_Nil)
  fix j' nm
  assume nm: "nm \<in> set (map fst (layer_locals (ls ! (j' - i))))"
    and st: "starts_with (p @ nat_str j @ ''.'') (p @ nat_str j' @ ''.'' @ nm)"
  from st have "j' = j" by (simp only: starts_with_index_key)
  with nm show "first_seg (drop (length (p @ nat_str j @ ''.'')) (p @ nat_str j' @ ''.'' @ nm))
      \<in> set (map fst (layer_locals (ls ! (j - i))))"
    by (simp add: first_seg_nodot locals_nodot)
qed

lemma unexpected_seq_other:
  "(\<And>s. \<not> starts_with q (p @ s)) \<Longrightarrow> unexpected_at q names (seq_state p i ls) = []"
  by (rule unexpected_seq_state_Nil) blast

lemma unexpected_seq_root:
  "CHR ''.'' \<notin> set a \<Longrightarrow> a \<in> set names \<Longrightarrow>
   unexpected_at [] names (seq_state (a @ ''.'') i ls) = []"
  by (rule unexpected_seq_state_Nil) (simp add: first_seg_dot)


lemma tensor_of_zero_eq [simp]:
  "tensor_of s (\<lambda>_ _ _ _. 0) = tensor_of s' (\<lambda>_ _ _ _. 0) \<longleftrightarrow> s = s'"
  by (metis dims_tensor_of)

lemma layer_arch_names:
  "layer_arch l' = layer_arch l \<Longrightarrow> map fst (layer_locals l') = map fst (layer_locals l)"
  by (cases l; cases l') simp_all

lemma layer_prepare_own:
  assumes "\<And>nm. map_of (sd st) (p @ nm) = None \<longleftrightarrow> nm \<notin> set (map fst (layer_locals l))"
  shows "layer_prepare ver p l st = st"
  using assms by (cases l) (simp_all add: bn_counter_default_def in_running_stats_def)

lemma load_locals_own:
  assumes "layer_arch l' = layer_arch l" and "wf_layer l"
    and "\<And>nm. map_of (sd st) (p @ nm) = map_of (layer_locals l) nm"
  shows "load_locals p (layer_locals l') l' st = (l, Inr st)"
  using assms
  by (cases l; cases l')
     (simp_all add: compat_0dim_def shape_list_def unflat4_flat4 split: prod.split)

lemma load_leaf_own:
  assumes "layer_arch l' = layer_arch l" and "wf_layer l"
    and "\<And>nm. map_of (sd st) (p @ nm) = map_of (layer_locals l) nm"
    and "unexpected_at p (map fst (layer_locals l)) (sd st) = []"
  shows "load_leaf ver p l' st = (l, Inr st)"
proof -
  have "map_of (sd st) (p @ nm) = None \<longleftrightarrow> nm \<notin> set (map fst (layer_locals l'))" for nm
    using assms(3) [of nm] layer_arch_names [OF assms(1)] by (simp add: map_of_eq_None_iff)
  then have "layer_prepare ver p l' st = st"
    by (rule layer_prepare_own)
  then show ?thesis
    using load_locals_own [OF assms(1-3)] layer_arch_names [OF assms(1)] assms(4)
    by (simp add: load_leaf_def)
qed


lemma load_children_own:
  assumes "map layer_arch ls' = map layer_arch ls" and "list_all wf_layer ls"
    and "\<And>j nm. j < length ls \<Longrightarrow>
      map_of (sd st) (p @ nat_str (i + j) @ ''.'' @ nm) = map_of (layer_locals (ls ! j)) nm"
    and "\<And>j. j < length ls \<Longrightarrow>
      unexpected_at (p @ nat_str (i + j) @ ''.'') (map fst (layer_locals (ls ! j))) (sd st) = []"
  shows "load_children ver p i ls' st = (ls, Inr st)"
  using assms
proof (induction ls arbitrary: ls' i)
  case Nil
  then show ?case by simp
next
  case (Cons l ls)
  from Cons.prems(1) obtain l' ls'' where ls': "ls' = l' # ls''"
    and a: "layer_arch l' = layer_arch l" and as: "map layer_arch ls'' = map layer_arch ls"
    by (cases ls') auto
  have leaf: "load_leaf ver (p @ nat_str i @ ''.'') l' st = (l, Inr st)"
  proof (rule load_leaf_own [OF a])
    show "wf_layer l" using Cons.prems(2) by simp
    show "map_of (sd st) ((p @ nat_str i @ ''.'') @ nm) = map_of (layer_locals l) nm" for nm
      using Cons.prems(3) [of 0 nm] by simp
    show "unexpected_at (p @ nat_str i @ ''.'') (map fst (layer_locals l)) (sd st) = []"
      using Cons.prems(4) [of 0] by simp
  qed
  have "load_children ver p (Suc i) ls'' st = (ls, Inr st)"
  proof (rule Cons.IH [OF as])
    show "list_all wf_layer ls" using Cons.prems(2) by simp
    show "map_of (sd st) (p @ nat_str (Suc i + j) @ ''.'' @ nm) = map_of (layer_locals (ls ! j)) nm"
      if "j < length ls" for j nm
      using Cons.prems(3) [of "Suc j" nm] that by simp
    show "unexpected_at (p @ nat_str (Suc i + j) @ ''.'') (map fst (layer_locals (ls ! j))) (sd st) = []"
      if "j < length ls" for j
      using Cons.prems(4) [of "Suc j"] that by simp
  qed
  with leaf ls' show ?case by simp
qed

lemma map_of_outside:
  "(\<And>k. k \<in> set (map fst e) \<Longrightarrow> \<not> starts_with p k) \<Longrightarrow> map_of e (p @ x) = None"
  by (metis map_of_eq_None_iff set_map starts_with_append)

lemma unexpected_outside:
  "(\<And>k. k \<in> set (map fst e) \<Longrightarrow> \<not> starts_with p k) \<Longrightarrow> unexpected_at (p @ x) names e = []"
  unfolding unexpected_at_Nil_iff by (auto simp: starts_with_iff)

lemma load_sequential_own:
  assumes "map layer_arch ls' = map layer_arch ls" and "list_all wf_layer ls"
    and d: "sd st = pre @ seq_state p 0 ls @ post"
    and out: "\<And>k. k \<in> set (map fst (pre @ post)) \<Longrightarrow> \<not> starts_with p k"
  shows "load_sequential ver p ls' st = (ls, Inr st)"
proof -
  have len: "length ls' = length ls"
    using assms(1) by (metis length_map)
  have opre: "\<And>k. k \<in> set (map fst pre) \<Longrightarrow> \<not> starts_with p k"
    and opost: "\<And>k. k \<in> set (map fst post) \<Longrightarrow> \<not> starts_with p k"
    using out by auto
  have "unexpected_at p names pre = []" and "unexpected_at p names post = []" for names
    using unexpected_outside [OF opre, where x = "[]"] unexpected_outside [OF opost, where x = "[]"]
    by simp_all
  then have "unexpected_at p (map nat_str [0..<length ls']) (sd st) = []"
    using unexpected_seq_node [of 0 ls "length ls" p] len d by simp
  then have node: "load_node p (map nat_str [0..<length ls']) st = st"
    by (simp add: load_node_def)
  have "load_children ver p 0 ls' st = (ls, Inr st)"
  proof (rule load_children_own [OF assms(1,2)])
    show "map_of (sd st) (p @ nat_str (0 + j) @ ''.'' @ nm) = map_of (layer_locals (ls ! j)) nm"
      if "j < length ls" for j nm
      using that d map_of_outside [OF opre] map_of_outside [OF opost] map_of_seq_state [of p 0 ls j nm]
      by (auto simp: map_of_append map_add_def split: option.split)
    show "unexpected_at (p @ nat_str (0 + j) @ ''.'') (map fst (layer_locals (ls ! j))) (sd st) = []"
      if "j < length ls" for j
      using that d unexpected_outside [OF opre] unexpected_outside [OF opost]
        unexpected_seq_child [of 0 j ls p]
      by simp
  qed
  with node show ?thesis
    by (simp add: load_sequential_def)
qed


lemma seq_state_outside:
  assumes "\<And>s. \<not> starts_with q (p @ s)"
  shows "k \<in> set (map fst (seq_state p i ls)) \<Longrightarrow> \<not> starts_with q k"
  using assms by (blast dest: keys_seq_state)

lemma layers_desc_norm_disjoint:
  "\<not> starts_with ''desc_norm.'' (''layers.'' @ s)"
  "\<not> starts_with ''layers.'' (''desc_norm.'' @ s)"
  by (simp_all add: starts_with_def)

theorem load_state_dict_roundtrip:
  assumes "map layer_arch (layers m') = map layer_arch (layers m)"
    and "map layer_arch (desc_norm m') = map layer_arch (desc_norm m)"
    and "list_all wf_layer (layers m)" and "list_all wf_layer (desc_norm m)"
  shows "load_state_dict ver m' (sosnet_state_dict m) =
    (m'\<lparr>layers := layers m, desc_norm := desc_norm m\<rparr>, Inr ())"
proof -
  let ?dL = "seq_state ''layers.'' 0 (layers m)"
  let ?dD = "seq_state ''desc_norm.'' 0 (desc_norm m)"
  let ?st = "\<lparr>sd = ?dL @ ?dD, missing = [], unexpected = [], msgs = []\<rparr> :: ldst"
  have root: "load_node [] [''layers'', ''desc_norm''] ?st = ?st"
    using unexpected_seq_root [of "''layers''" "[''layers'', ''desc_norm'']" 0 "layers m"]
      unexpected_seq_root [of "''desc_norm''" "[''layers'', ''desc_norm'']" 0 "desc_norm m"]
    by (simp add: load_node_def)
  have L: "load_sequential ver ''layers.'' (layers m') ?st = (layers m, Inr ?st)"
  proof (rule load_sequential_own [where pre = "[]" and post = ?dD, OF assms(1,3)])
    fix k
    assume "k \<in> set (map fst ([] @ ?dD))"
    then have "k \<in> set (map fst ?dD)" by (simp only: append_Nil)
    then show "\<not> starts_with ''layers.'' k"
      by (rule seq_state_outside [OF layers_desc_norm_disjoint(2)])
  qed simp
  have D: "load_sequential ver ''desc_norm.'' (desc_norm m') ?st = (desc_norm m, Inr ?st)"
  proof (rule load_sequential_own [where pre = ?dL and post = "[]", OF assms(2,4)])
    fix k
    assume "k \<in> set (map fst (?dL @ []))"
    then have "k \<in> set (map fst ?dL)" by (simp only: append_Nil2)
    then show "\<not> starts_with ''desc_norm.'' k"
      by (rule seq_state_outside [OF layers_desc_norm_disjoint(1)])
  qed simp
  show ?thesis
    using root L D
    by (simp add: load_state_dict_def sosnet_state_dict_def strict_result_def strict_errors_def)
qed

end
