(* ===== verification/Pretrained.thy ===== *)
theory Pretrained
  imports StateDict
begin

text \<open>
  The module-level \<open>urls\<close> dictionary (lines 7--9) and the whole of \<open>SOSNet.__init__\<close>
  (lines 28--65): the module construction of \<open>SOSNet\<close>, then, with
  \<open>pretrained=True\<close>, the download of \<open>urls['lib']\<close> and the strict load of the
  checkpoint's \<open>'state_dict'\<close> entry. The download and deserialisation
  (\<open>torch.hub.load_state_dict_from_url\<close>) is an argument \<open>hub\<close>: for a URL, the
  exception it raises or the checkpoint dictionary it returns, whose entries are
  state dictionaries with their metadata.
\<close>

definition urls :: "string \<rightharpoonup> string" where
  "urls = [''lib'' \<mapsto> ''https://github.com/yuruntian/SOSNet/tree/master/sosnet-weights/sosnet-32x32-liberty.pth'',
           ''hp_a'' \<mapsto> ''https://github.com/yuruntian/SOSNet/tree/master/sosnet-weights//sosnet-32x32-hpatches_a.pth'']"

type_synonym checkpoint = "string \<rightharpoonup> state_dict \<times> metadata"

type_synonym hub = "string \<Rightarrow> error + checkpoint"

definition sosnet_init :: "(string \<rightharpoonup> nat) \<Rightarrow> weight_draw \<Rightarrow> hub \<Rightarrow> bool \<Rightarrow> error + sosnet" where
  "sosnet_init attrs w hub pretrained =
     ebind (sosnet_modules attrs w) (\<lambda>m.
       if pretrained then
         ebind (dict_get urls ''lib'') (\<lambda>u.
         ebind (hub u) (\<lambda>ck.
         ebind (dict_get ck ''state_dict'') (\<lambda>(d, ver).
           (case load_state_dict ver m d of (m', r) \<Rightarrow> ebind r (\<lambda>_. Inr m')))))
       else Inr m)"

lemma urls_lib [simp]:
  "dict_get urls ''lib'' =
     Inr ''https://github.com/yuruntian/SOSNet/tree/master/sosnet-weights/sosnet-32x32-liberty.pth''"
  by (simp add: urls_def)

lemma built_arch:
  assumes "attrs ''dim_desc'' = Some d"
    and "sosnet_modules attrs w = Inr m" and "sosnet_modules attrs w' = Inr m'"
  shows "map layer_arch (layers m') = map layer_arch (layers m)"
    and "map layer_arch (desc_norm m') = map layer_arch (desc_norm m)"
  using assms sosnet_modules_Inr [where attrs = attrs and d = d, OF assms(1)]
  by (auto simp: sosnet_layers_blocks [where attrs = attrs, OF assms(1)] conv_block_def conv2d_init_def batchnorm2d_init_def)

lemma built_wf:
  assumes "attrs ''dim_desc'' = Some d" and "sosnet_modules attrs w = Inr m"
  shows "list_all wf_layer (layers m)" and "list_all wf_layer (desc_norm m)"
  using assms sosnet_modules_Inr [where attrs = attrs and d = d, OF assms(1)]
  by (auto simp: sosnet_layers_blocks [where attrs = attrs, OF assms(1)] conv_block_def conv2d_init_def batchnorm2d_init_def)

lemma sosnet_modules_training: "sosnet_modules attrs w = Inr m \<Longrightarrow> training m"
  by (auto simp: sosnet_modules_def ebind_eq_Inr_iff)

lemma sosnet_update_all:
  "training m \<Longrightarrow> m\<lparr>layers := a, desc_norm := b\<rparr> = \<lparr>training = True, layers = a, desc_norm = b\<rparr>"
  by (cases m) simp

end
