(* ===== verification/Spec2Isabelle.thy ===== *)
theory Spec2Isabelle
  imports Network Pretrained
begin

text \<open>
  \<^bold>\<open>SOSNet in Isabelle/HOL.\<close> A verification development of
  \<^verbatim>\<open>src/kornia/feature/sosnet.py\<close>: the class \<open>SOSNet\<close>, a 22-module
  convolutional stack (\<open>self.layers\<close>) followed by a descriptor normalisation
  (\<open>self.desc_norm\<close>), whose \<open>forward\<close> maps a batch of grey patches to one
  descriptor row per patch.

  \<^bold>\<open>Parts and theories.\<close>
  \<^item> \<open>Prelude\<close>: the exceptions the code raises (\<open>error\<close>), the error monad \<open>ebind\<close>
    (a raised exception aborts the rest of the computation), shapes, sum lemmas.
  \<^item> \<open>Tensor\<close>: a tensor is a record of its \<open>(B, C, H, W)\<close> dimensions and nested lists
    of reals (\<open>wf_tensor\<close> says the lists have those lengths); \<open>tensor_of\<close> builds one
    elementwise, \<open>tget\<close> reads one element.
  \<^item> \<open>Layers\<close>: the \<open>torch.nn\<close> modules the file instantiates, as the datatype
    \<open>layer\<close> carrying their parameters and buffers (the batch-normalisation running
    mean, variance and counter); \<open>layer_forward\<close> is one module's forward call,
    returning the module's new state and its output or exception, with the framework's
    checks in the framework's order; \<open>layer_shape\<close> is its shape contract, and
    \<open>layer_forward_refines_shape\<close> proves the forward call implements it.
  \<^item> \<open>Sequential\<close>: \<open>nn.Sequential\<close>, its constructor's argument evaluation
    (\<open>collect_args\<close>) and its forward (\<open>seq_forward\<close>), refining \<open>seq_shape\<close>.
  \<^item> \<open>SOSNet\<close>: the instance state (record \<open>sosnet\<close>), \<open>__init__\<close> lines 29--57
    (\<open>sosnet_layer_args\<close>, \<open>desc_norm_args\<close>, \<open>sosnet_modules\<close>), the attribute lookup
    \<open>self.dim_desc\<close> (\<open>get_attr\<close> over the class attributes, \<open>sosnet_class_attrs\<close> the
    source's), \<open>forward\<close> lines 67--70 (\<open>sosnet_forward\<close>, \<open>desc_eps\<close>, \<open>view_rows\<close>),
    \<open>train\<close>/\<open>eval\<close> (\<open>sosnet_train\<close>), the network contract \<open>sosnet_shape\<close>, and the
    exact set of input shapes the stack accepts (\<open>sosnet_stack_shape\<close>).
  \<^item> \<open>Normalisation\<close>: local response normalisation with the file's parameters is
    channel-wise L2 normalisation (\<open>lrn_kernel_l2\<close>).
  \<^item> \<open>Network\<close>: the forward pass against the contract, for any module state and for
    the network \<open>__init__\<close> builds.
  \<^item> \<open>Keys\<close>: the strings of state-dictionary keys (\<open>str(i)\<close> as \<open>nat_str\<close>,
    \<open>startswith\<close>, \<open>split('.', 1)[0]\<close>, \<open>join\<close>), with the injectivity of \<open>nat_str\<close>.
  \<^item> \<open>StateDict\<close>: \<open>nn.Module.state_dict()\<close> (\<open>sosnet_state_dict\<close>) and
    \<open>load_state_dict(sd, strict=True)\<close> (\<open>load_state_dict\<close>) over the module tree of
    \<open>SOSNet\<close>, with the framework's version fixes, message texts and the state after a
    failed load; a module's own dictionary loads back into any module of the same
    architecture (\<open>load_state_dict_roundtrip\<close>).
  \<^item> \<open>Pretrained\<close>: \<open>urls\<close> (lines 7--9) and the whole \<open>__init__\<close> (\<open>sosnet_init\<close>,
    lines 28--65), the download being the argument \<open>hub\<close>.
  \<^item> this theory: the properties of the program as a whole, C2 to C14 (C1 is in
    \<open>SOSNet\<close>, next to the construction).

  \<^bold>\<open>How the model reads the code.\<close> \<open>__init__\<close> evaluates the arguments of each
  \<open>nn.Sequential\<close> left to right; the argument on line 52 reads \<open>self.dim_desc\<close>, which
  nothing in the class defines, so with the source's class attributes the construction
  raises \<open>AttributeError\<close> (C1). The theorems about the network the code means to build
  take class attributes with \<open>dim_desc = 128\<close> (the value the docstring states); the
  random initial convolution weights are an argument \<open>w\<close>, and all theorems hold for
  every draw. \<open>forward\<close> threads the module state: in training mode each
  \<open>BatchNorm2d\<close> updates its running statistics and counter, also on a pass that a later
  module aborts, and the dropout mask is an argument \<open>keep\<close>. Floats are reals: no
  rounding, and division by zero is 0 where the framework gives NaN.

  \<^bold>\<open>What is proved.\<close> The forward pass refines its shape contract (C2); the built
  network accepts exactly the inputs with a non-empty batch, sides of at least 29 and
  not a single small patch in training mode (C3), and returns \<open>B\<close> rows of
  \<open>128 * h * w\<close> values (C4); the descriptor normalisation is L2 normalisation (C5) and
  the rows for patches up to 32x32 are unit vectors (C6); in training mode one small
  patch raises the batch-normalisation error (C7); an evaluation-mode pass leaves the
  state unchanged (C8) and no pass changes the contract (C9). With \<open>pretrained=True\<close>, a
  checkpoint holding the state dictionary of a network of the same architecture yields
  exactly that network (C10), because a built network's \<open>state_dict()\<close> has the 28
  expected keys (C12) and loads back strictly into any built network (C11); a checkpoint
  without \<open>'state_dict'\<close> raises \<open>KeyError\<close> (C13), and as written the
  construction fails before the pretrained branch is reached (C14).

  \<^bold>\<open>Not modelled.\<close> The download and unpickling of
  \<open>torch.hub.load_state_dict_from_url\<close> is I/O: its outcome is the argument
  \<open>hub\<close> (\<open>map_location\<close> only chooses the device). Checkpoint entries that are not
  tensors are not modelled. Float rounding, devices and dtypes are not modelled. The torch
  modules and \<open>load_state_dict\<close> are modelled from the framework's semantics (torch 1.x,
  contemporary with the code), only in the
  configurations the file uses (no affine parameters, no bias, square kernels). No
  bounds or fuel are needed: every definition is structurally recursive or a
  non-recursive composition.
\<close>

section \<open>The forward pass\<close>

text \<open>
  C2: \<open>SOSNet.forward\<close> implements the network's shape contract \<open>sosnet_shape\<close>: on a
  well-formed input tensor, the forward call raises exactly the exception the contract
  predicts for the input's shape, and when it returns, it returns as many rows as the
  contract predicts, each of the length the contract predicts.
\<close>

theorem forward_refines_shape_contract:
  assumes "wf_tensor x"
  shows "(\<forall>e. snd (sosnet_forward keep m x) = Inl e \<longleftrightarrow>
              sosnet_shape (training m) m (dims x) = Inl e) \<and>
         (\<forall>rows. snd (sosnet_forward keep m x) = Inr rows \<longrightarrow>
              (\<exists>D. sosnet_shape (training m) m (dims x) = Inr (length rows, D) \<and>
                   (\<forall>r\<in>set rows. length r = D)))"
  using sosnet_forward_contract [OF assms, where keep = keep and m = m]
  by (auto split: sum.splits)

theorem forward_refines_shape_contract_witness:
  "wf_tensor (tensor_of (1, 1, 1, 1) (\<lambda>_ _ _ _. 0)) \<and>
   (\<exists>rows D. snd (sosnet_forward (\<lambda>_ _ _ _. True) \<lparr>training = False, layers = [], desc_norm = []\<rparr>
       (tensor_of (1, 1, 1, 1) (\<lambda>_ _ _ _. 0))) = Inr rows \<and>
     sosnet_shape False \<lparr>training = False, layers = [], desc_norm = []\<rparr> (1, 1, 1, 1) =
        Inr (length rows, D) \<and> list_all (\<lambda>r. length r = D) rows)"
proof -
  let ?m = "\<lparr>training = False, layers = [], desc_norm = []\<rparr>"
  let ?x = "tensor_of (1, 1, 1, 1) (\<lambda>_ _ _ _. 0)"
  have c: "(\<forall>rows. snd (sosnet_forward (\<lambda>_ _ _ _. True) ?m ?x) = Inr rows \<longrightarrow>
      (\<exists>D. sosnet_shape False ?m (1, 1, 1, 1) = Inr (length rows, D) \<and> (\<forall>r\<in>set rows. length r = D)))"
    using forward_refines_shape_contract [where x = ?x and keep = "\<lambda>_ _ _ _. True" and m = ?m]
    by simp
  obtain rows where rows: "snd (sosnet_forward (\<lambda>_ _ _ _. True) ?m ?x) = Inr rows"
    by (simp add: sosnet_forward_def view_rows_def map_tensor_def tensor_of_def)
  with c show ?thesis
    by (auto simp: list_all_iff)
qed

text \<open>
  C3: for the network \<open>SOSNet.__init__\<close> builds when \<open>dim_desc = 128\<close>, in either
  mode, \<open>forward\<close> returns on a well-formed \<open>(B, 1, H, W)\<close> input exactly when the
  batch is not empty, both sides are at least 29, and not (training mode with a single
  patch of at most 32x32, whose last batch normalisation sees one value per channel).
\<close>

theorem forward_accepts_iff:
  assumes "attrs ''dim_desc'' = Some 128" and "sosnet_modules attrs w = Inr m"
    and "wf_tensor x" and "dims x = (B, 1, H, W)"
  shows "(\<exists>rows. snd (sosnet_forward keep (sosnet_train tr m) x) = Inr rows) \<longleftrightarrow>
    0 < B \<and> 29 \<le> H \<and> 29 \<le> W \<and> \<not> (tr \<and> B = 1 \<and> H \<le> 32 \<and> W \<le> 32)"
  using sosnet_forward_built [OF assms, where keep = keep and tr = tr]
  by (auto split: sum.splits)

theorem forward_accepts_iff_witness:
  "\<exists>m. sosnet_modules [''dim_desc'' \<mapsto> 128] (\<lambda>_ _ _ _ _. 0) = Inr m \<and>
     (\<exists>rows. snd (sosnet_forward (\<lambda>_ _ _ _. True) (sosnet_train False m)
        (tensor_of (2, 1, 32, 32) (\<lambda>_ _ _ _. 0))) = Inr rows)"
proof -
  obtain m where m: "sosnet_modules [''dim_desc'' \<mapsto> 128] (\<lambda>_ _ _ _ _. 0) = Inr m"
    using sosnet_modules_Inr [where attrs = "[''dim_desc'' \<mapsto> 128]" and d = 128] by fastforce
  have "(\<exists>rows. snd (sosnet_forward (\<lambda>_ _ _ _. True) (sosnet_train False m)
        (tensor_of (2, 1, 32, 32) (\<lambda>_ _ _ _. 0))) = Inr rows) \<longleftrightarrow>
    0 < (2::nat) \<and> 29 \<le> (32::nat) \<and> 29 \<le> (32::nat) \<and> \<not> (False \<and> (2::nat) = 1 \<and> (32::nat) \<le> 32 \<and> (32::nat) \<le> 32)"
    by (rule forward_accepts_iff [OF _ m]) simp_all
  with m show ?thesis by auto
qed

text \<open>
  C4: when \<open>forward\<close> of that network returns on a well-formed \<open>(B, 1, H, W)\<close> input,
  it returns \<open>B\<close> rows of \<open>128 * h * w\<close> values, \<open>h = (H + 3) div 4 - 7\<close> and
  \<open>w = (W + 3) div 4 - 7\<close> the sides of the last feature map: 128 values exactly for
  sides 29 to 32.
\<close>

theorem forward_rows_dims:
  assumes "attrs ''dim_desc'' = Some 128" and "sosnet_modules attrs w = Inr m"
    and "wf_tensor x" and "dims x = (B, 1, H, W)"
    and "snd (sosnet_forward keep (sosnet_train tr m) x) = Inr rows"
  shows "length rows = B \<and>
    (\<forall>r\<in>set rows. length r = 128 * ((H + 3) div 4 - 7) * ((W + 3) div 4 - 7))"
  using sosnet_forward_built [OF assms(1-4), where keep = keep and tr = tr] assms(5)
  by simp

theorem forward_rows_dims_witness:
  "\<exists>m rows. sosnet_modules [''dim_desc'' \<mapsto> 128] (\<lambda>_ _ _ _ _. 0) = Inr m \<and>
     snd (sosnet_forward (\<lambda>_ _ _ _. True) (sosnet_train False m)
        (tensor_of (2, 1, 40, 40) (\<lambda>_ _ _ _. 0))) = Inr rows \<and>
     length rows = 2 \<and> list_all (\<lambda>r. length r = 1152) rows"
proof -
  obtain m where m: "sosnet_modules [''dim_desc'' \<mapsto> 128] (\<lambda>_ _ _ _ _. 0) = Inr m"
    using sosnet_modules_Inr [where attrs = "[''dim_desc'' \<mapsto> 128]" and d = 128] by fastforce
  obtain rows where rows: "snd (sosnet_forward (\<lambda>_ _ _ _. True) (sosnet_train False m)
        (tensor_of (2, 1, 40, 40) (\<lambda>_ _ _ _. 0))) = Inr rows"
    using sosnet_forward_built_ok [OF _ m, where x = "tensor_of (2, 1, 40, 40) (\<lambda>_ _ _ _. 0)"
        and B = 2 and H = 40 and W = 40 and tr = False and keep = "\<lambda>_ _ _ _. True"]
    by auto
  have "length rows = 2 \<and>
    (\<forall>r\<in>set rows. length r = 128 * ((40 + 3) div 4 - 7) * ((40 + 3) div 4 - 7))"
    by (rule forward_rows_dims [OF _ m _ _ rows]) simp_all
  with m rows show ?thesis by (auto simp: list_all_iff)
qed

text \<open>
  C6: on inputs with sides of at most 32, every row \<open>forward\<close> of that network returns
  is a unit vector (sum of squares 1), unless the 128 values it normalises are all zero,
  where the model divides by 0 (the framework's float division gives NaN there).
\<close>

theorem forward_rows_unit_norm:
  assumes "attrs ''dim_desc'' = Some 128" and "sosnet_modules attrs w = Inr m"
    and "wf_tensor x" and "dims x = (B, 1, H, W)" and "H \<le> 32" and "W \<le> 32"
    and "snd (sosnet_forward keep (sosnet_train tr m) x) = Inr rows" and "r \<in> set rows"
  shows "sum_list (map (\<lambda>v. v\<^sup>2) r) = 1 \<or> (\<forall>v\<in>set r. v = 0)"
proof -
  note built = sosnet_modules_128 [where attrs = attrs, OF assms(1,2)]
  let ?m = "sosnet_train tr m"
  from assms(7) obtain y d where
      y: "snd (seq_forward tr keep (layers m) x) = Inr y" and
      d: "snd (seq_forward tr keep (desc_norm m) (map_tensor (\<lambda>v. v + desc_eps) y)) = Inr d" and
      v: "view_rows d = Inr rows"
    by (auto simp: snd_sosnet_forward ebind_eq_Inr_iff sosnet_train_def)
  have "seq_shape tr (layers m) (B, 1, H, W) = Inr (dims y)"
    using seq_forward_refines_shape [OF assms(3), where tr = tr and keep = keep and ls = "layers m"]
      y assms(4) by simp
  then have "29 \<le> H \<and> 29 \<le> W \<and> dims y = (B, 128, (H + 3) div 4 - 7, (W + 3) div 4 - 7)"
    using sosnet_stack_shape [where attrs = attrs, OF assms(1)] built(2) by simp
  moreover have "29 \<le> n \<Longrightarrow> n \<le> 32 \<Longrightarrow> (n + 3) div 4 - 7 = 1" for n :: nat
    by presburger
  ultimately have dy: "dims y = (B, 128, 1, 1)"
    using assms(5,6) by simp
  let ?z = "map_tensor (\<lambda>v. v + desc_eps) y"
  have "seq_forward tr keep (desc_norm m) ?z =
      (desc_norm m, Inr (l2_normalize ?z))"
    using desc_norm_forward_l2 [where z = ?z and B = B and C = 128 and H = 1 and W = 1] dy built(3)
    by simp
  with d have "d = l2_normalize ?z" by simp
  with v have "view_rows (l2_normalize ?z) = Inr rows" by simp
  moreover have "wf_tensor ?z" and "dims ?z = (B, 128, 1, 1)"
    using dy by simp_all
  ultimately show ?thesis
    using assms(8) by (intro desc_rows_unit [where z = ?z and B = B and C = 128]) simp_all
qed

theorem forward_rows_unit_norm_witness:
  "\<exists>m rows. sosnet_modules [''dim_desc'' \<mapsto> 128] (\<lambda>_ _ _ _ _. 0) = Inr m \<and>
     snd (sosnet_forward (\<lambda>_ _ _ _. True) (sosnet_train False m)
        (tensor_of (2, 1, 32, 32) (\<lambda>_ _ _ _. 0))) = Inr rows \<and> rows \<noteq> [] \<and>
     list_all (\<lambda>r. sum_list (map (\<lambda>v. v\<^sup>2) r) = 1 \<or> list_all (\<lambda>v. v = 0) r) rows"
proof -
  obtain m where m: "sosnet_modules [''dim_desc'' \<mapsto> 128] (\<lambda>_ _ _ _ _. 0) = Inr m"
    using sosnet_modules_Inr [where attrs = "[''dim_desc'' \<mapsto> 128]" and d = 128] by fastforce
  obtain rows where rows: "snd (sosnet_forward (\<lambda>_ _ _ _. True) (sosnet_train False m)
        (tensor_of (2, 1, 32, 32) (\<lambda>_ _ _ _. 0))) = Inr rows" and "length rows = 2"
    using sosnet_forward_built_ok [OF _ m, where x = "tensor_of (2, 1, 32, 32) (\<lambda>_ _ _ _. 0)"
        and B = 2 and H = 32 and W = 32 and tr = False and keep = "\<lambda>_ _ _ _. True"]
    by auto
  have "\<forall>r\<in>set rows. sum_list (map (\<lambda>v. v\<^sup>2) r) = 1 \<or> (\<forall>v\<in>set r. v = 0)"
    using forward_rows_unit_norm [OF _ m _ _ _ _ rows] by simp
  with m rows \<open>length rows = 2\<close> show ?thesis by (auto simp: list_all_iff)
qed

text \<open>
  C7: the network as constructed is in training mode; on a single well-formed patch of
  29 to 32 pixels a side, \<open>forward\<close> raises the \<open>ValueError\<close> of the last batch
  normalisation, which sees one value per channel.
\<close>

theorem forward_train_single_patch_error:
  assumes "attrs ''dim_desc'' = Some 128" and "sosnet_modules attrs w = Inr m"
    and "wf_tensor x" and "dims x = (1, 1, H, W)"
    and "29 \<le> H" and "H \<le> 32" and "29 \<le> W" and "W \<le> 32"
  shows "snd (sosnet_forward keep m x) =
    Inl (ValueError ''Expected more than 1 value per channel when training'')"
proof -
  note built = sosnet_modules_128 [where attrs = attrs, OF assms(1,2)]
  have "sosnet_shape True m (1, 1, H, W) = Inl err_batch"
    using sosnet_stack_batch_error [where attrs = attrs and w = w, OF assms(1,5-8)] built(2)
    by (simp add: sosnet_shape_def)
  then show ?thesis
    using sosnet_forward_contract [OF assms(3), where keep = keep and m = m] built(1) assms(4)
    by (auto split: sum.splits)
qed

theorem forward_train_single_patch_error_witness:
  "\<exists>m. sosnet_modules [''dim_desc'' \<mapsto> 128] (\<lambda>_ _ _ _ _. 0) = Inr m \<and>
     snd (sosnet_forward (\<lambda>_ _ _ _. True) m (tensor_of (1, 1, 32, 32) (\<lambda>_ _ _ _. 0))) =
       Inl (ValueError ''Expected more than 1 value per channel when training'')"
proof -
  obtain m where m: "sosnet_modules [''dim_desc'' \<mapsto> 128] (\<lambda>_ _ _ _ _. 0) = Inr m"
    using sosnet_modules_Inr [where attrs = "[''dim_desc'' \<mapsto> 128]" and d = 128] by fastforce
  have "snd (sosnet_forward (\<lambda>_ _ _ _. True) m (tensor_of (1, 1, 32, 32) (\<lambda>_ _ _ _. 0))) =
       Inl (ValueError ''Expected more than 1 value per channel when training'')"
    by (rule forward_train_single_patch_error [OF _ m, where H = 32 and W = 32]) simp_all
  with m show ?thesis by auto
qed

text \<open>
  C5: the descriptor normalisation \<open>SOSNet.__init__\<close> builds,
  \<open>nn.LocalResponseNorm(2 * dim_desc, alpha = 2 * dim_desc, beta = 0.5, k = 0)\<close>, maps
  every input of at most \<open>dim_desc\<close> channels to its channel-wise L2 normalisation, and
  leaves the module unchanged.
\<close>

theorem desc_norm_l2:
  assumes "attrs ''dim_desc'' = Some n" and "collect_args (desc_norm_args attrs) = Inr dn"
    and "dims z = (B, C, H, W)" and "C \<le> n"
  shows "seq_forward tr keep dn z = (dn, Inr (l2_normalize z))"
proof -
  from assms(1,2) have dn: "dn = [LocalResponseNorm (2 * n) (real (2 * n)) (1 / 2) 0]"
    by (simp add: desc_norm_args_def get_attr_def)
  have "lrn_kernel (2 * n) (real (2 * n)) (1 / 2) 0 z = l2_normalize z"
    using assms(3,4) by (rule lrn_kernel_l2)
  with dn show ?thesis
    by (simp add: seq_forward.simps(2))
qed

theorem desc_norm_l2_witness:
  "seq_forward False (\<lambda>_ _ _ _. True) [LocalResponseNorm (2 * 128) (real (2 * 128)) (1 / 2) 0]
     (tensor_of (1, 2, 1, 1) (\<lambda>_ c _ _. real c + 3)) =
   ([LocalResponseNorm (2 * 128) (real (2 * 128)) (1 / 2) 0],
    Inr (l2_normalize (tensor_of (1, 2, 1, 1) (\<lambda>_ c _ _. real c + 3))))"
  using desc_norm_l2 [where attrs = "[''dim_desc'' \<mapsto> 128]" and n = 128
      and dn = "[LocalResponseNorm (2 * 128) (real (2 * 128)) (1 / 2) 0]"
      and z = "tensor_of (1, 2, 1, 1) (\<lambda>_ c _ _. real c + 3)" and B = 1 and C = 2 and H = 1 and W = 1
      and tr = False and keep = "\<lambda>_ _ _ _. True"]
  by (simp add: desc_norm_args_def get_attr_def)




section \<open>Construction with pretrained weights\<close>

text \<open>
  C10: with \<open>pretrained=True\<close>, when the download of \<open>urls['lib']\<close> returns a checkpoint
  whose \<open>'state_dict'\<close> entry is the state dictionary of a network of the same
  architecture, \<open>SOSNet.__init__\<close> returns a network in training mode holding exactly
  that network's convolution weights and batch-normalisation statistics.
\<close>

theorem init_pretrained_loads:
  assumes "sosnet_modules attrs w = Inr m"
    and "map layer_arch (layers m0) = map layer_arch (layers m)"
    and "map layer_arch (desc_norm m0) = map layer_arch (desc_norm m)"
    and "list_all wf_layer (layers m0)" and "list_all wf_layer (desc_norm m0)"
    and "hub ''https://github.com/yuruntian/SOSNet/tree/master/sosnet-weights/sosnet-32x32-liberty.pth'' = Inr ck"
    and "ck ''state_dict'' = Some (sosnet_state_dict m0, ver)"
  shows "sosnet_init attrs w hub True =
    Inr \<lparr>training = True, layers = layers m0, desc_norm = desc_norm m0\<rparr>"
proof -
  have "load_state_dict ver m (sosnet_state_dict m0) =
      (m\<lparr>layers := layers m0, desc_norm := desc_norm m0\<rparr>, Inr ())"
    using assms(2-5) by (intro load_state_dict_roundtrip) simp_all
  with assms(1,6,7) sosnet_modules_training [OF assms(1)] show ?thesis
    by (simp add: sosnet_init_def sosnet_update_all)
qed


theorem init_pretrained_loads_witness:
  "\<exists>m0. sosnet_modules [''dim_desc'' \<mapsto> 128] (\<lambda>_ _ _ _ _. 1) = Inr m0 \<and>
     sosnet_init [''dim_desc'' \<mapsto> 128] (\<lambda>_ _ _ _ _. 0)
       (\<lambda>_. Inr [''state_dict'' \<mapsto> (sosnet_state_dict m0, Map.empty)]) True =
     Inr \<lparr>training = True, layers = layers m0, desc_norm = desc_norm m0\<rparr>"
proof -
  obtain m0 where m0: "sosnet_modules [''dim_desc'' \<mapsto> 128] (\<lambda>_ _ _ _ _. 1) = Inr m0"
    using sosnet_modules_Inr [where attrs = "[''dim_desc'' \<mapsto> 128]" and d = 128] by fastforce
  obtain m where m: "sosnet_modules [''dim_desc'' \<mapsto> 128] (\<lambda>_ _ _ _ _. 0) = Inr m"
    using sosnet_modules_Inr [where attrs = "[''dim_desc'' \<mapsto> 128]" and d = 128] by fastforce
  have "sosnet_init [''dim_desc'' \<mapsto> 128] (\<lambda>_ _ _ _ _. 0)
       (\<lambda>_. Inr [''state_dict'' \<mapsto> (sosnet_state_dict m0, Map.empty)]) True =
     Inr \<lparr>training = True, layers = layers m0, desc_norm = desc_norm m0\<rparr>"
    by (rule init_pretrained_loads [OF m, where ck = "[''state_dict'' \<mapsto> (sosnet_state_dict m0, Map.empty)]"
          and ver = Map.empty])
       (simp_all add: built_arch [where attrs = "[''dim_desc'' \<mapsto> 128]" and d = 128, OF _ m m0]
          built_wf [where attrs = "[''dim_desc'' \<mapsto> 128]" and d = 128, OF _ m0])
  with m0 show ?thesis by blast
qed





text \<open>
  C12: the state dictionary of the network \<open>__init__\<close> builds has exactly 28 keys, the
  weight of each of the seven convolutions and the three buffers of each of the seven
  batch normalisations, under their \<open>nn.Sequential\<close> indices.
\<close>

theorem sosnet_state_dict_keys:
  assumes "attrs ''dim_desc'' = Some d" and "sosnet_modules attrs w = Inr m"
  shows "map fst (sosnet_state_dict m) =
    [''layers.1.weight'', ''layers.2.running_mean'', ''layers.2.running_var'', ''layers.2.num_batches_tracked'',
     ''layers.4.weight'', ''layers.5.running_mean'', ''layers.5.running_var'', ''layers.5.num_batches_tracked'',
     ''layers.7.weight'', ''layers.8.running_mean'', ''layers.8.running_var'', ''layers.8.num_batches_tracked'',
     ''layers.10.weight'', ''layers.11.running_mean'', ''layers.11.running_var'', ''layers.11.num_batches_tracked'',
     ''layers.13.weight'', ''layers.14.running_mean'', ''layers.14.running_var'', ''layers.14.num_batches_tracked'',
     ''layers.16.weight'', ''layers.17.running_mean'', ''layers.17.running_var'', ''layers.17.num_batches_tracked'',
     ''layers.20.weight'', ''layers.21.running_mean'', ''layers.21.running_var'', ''layers.21.num_batches_tracked'']"
  using assms sosnet_modules_Inr [where attrs = attrs and d = d, OF assms(1)]
  by (auto simp: sosnet_layers_blocks [where attrs = attrs, OF assms(1)] conv_block_def conv2d_init_def
      batchnorm2d_init_def sosnet_state_dict_def nat_str.simps digits_def)


theorem sosnet_state_dict_keys_witness:
  "\<exists>m. sosnet_modules [''dim_desc'' \<mapsto> 128] (\<lambda>_ _ _ _ _. 0) = Inr m \<and>
     length (sosnet_state_dict m) = 28 \<and> map fst (sosnet_state_dict m) ! 24 = ''layers.20.weight''"
proof -
  obtain m where m: "sosnet_modules [''dim_desc'' \<mapsto> 128] (\<lambda>_ _ _ _ _. 0) = Inr m"
    using sosnet_modules_Inr [where attrs = "[''dim_desc'' \<mapsto> 128]" and d = 128] by fastforce
  have "map fst (sosnet_state_dict m) =
    [''layers.1.weight'', ''layers.2.running_mean'', ''layers.2.running_var'', ''layers.2.num_batches_tracked'',
     ''layers.4.weight'', ''layers.5.running_mean'', ''layers.5.running_var'', ''layers.5.num_batches_tracked'',
     ''layers.7.weight'', ''layers.8.running_mean'', ''layers.8.running_var'', ''layers.8.num_batches_tracked'',
     ''layers.10.weight'', ''layers.11.running_mean'', ''layers.11.running_var'', ''layers.11.num_batches_tracked'',
     ''layers.13.weight'', ''layers.14.running_mean'', ''layers.14.running_var'', ''layers.14.num_batches_tracked'',
     ''layers.16.weight'', ''layers.17.running_mean'', ''layers.17.running_var'', ''layers.17.num_batches_tracked'',
     ''layers.20.weight'', ''layers.21.running_mean'', ''layers.21.running_var'', ''layers.21.num_batches_tracked'']"
    by (rule sosnet_state_dict_keys [OF _ m, where d = 128]) simp
  then have "length (map fst (sosnet_state_dict m)) = 28" and "map fst (sosnet_state_dict m) ! 24 = ''layers.20.weight''"
    by simp_all
  with m show ?thesis by simp
qed

text \<open>
  C13: with \<open>pretrained=True\<close>, a downloaded checkpoint without a \<open>'state_dict'\<close>
  entry makes \<open>SOSNet.__init__\<close> raise \<open>KeyError('state_dict')\<close>.
\<close>

theorem init_missing_state_dict:
  assumes "sosnet_modules attrs w = Inr m"
    and "hub ''https://github.com/yuruntian/SOSNet/tree/master/sosnet-weights/sosnet-32x32-liberty.pth'' = Inr ck"
    and "ck ''state_dict'' = None"
  shows "sosnet_init attrs w hub True = Inl (KeyError ''state_dict'')"
  using assms by (simp add: sosnet_init_def)


theorem init_missing_state_dict_witness:
  "\<exists>m. sosnet_modules [''dim_desc'' \<mapsto> 128] (\<lambda>_ _ _ _ _. 0) = Inr m \<and>
     sosnet_init [''dim_desc'' \<mapsto> 128] (\<lambda>_ _ _ _ _. 0) (\<lambda>_. Inr Map.empty) True =
       Inl (KeyError ''state_dict'')"
proof -
  obtain m where m: "sosnet_modules [''dim_desc'' \<mapsto> 128] (\<lambda>_ _ _ _ _. 0) = Inr m"
    using sosnet_modules_Inr [where attrs = "[''dim_desc'' \<mapsto> 128]" and d = 128] by fastforce
  have "sosnet_init [''dim_desc'' \<mapsto> 128] (\<lambda>_ _ _ _ _. 0) (\<lambda>_. Inr Map.empty) True =
      Inl (KeyError ''state_dict'')"
    by (rule init_missing_state_dict [OF m, where ck = Map.empty]) simp_all
  with m show ?thesis by blast
qed



end
